theory Spec2Isabelle
  imports Complex_Main "HOL-Library.Word"
begin

section \<open>Vectors and matrices (the GLM types used by Main.cpp)\<close>

text \<open>
  The program computes on \<^verbatim>\<open>float\<close>. In this and the following sections every
  \<^verbatim>\<open>float\<close> is a real number and every arithmetic operation is the exact one: they say
  which operations the code performs, on which operands. A later section has the
  arithmetic of binary32 itself, with rounding, infinities and NaN, and
  \<^verbatim>\<open>updateCameraVectors\<close> in it. \<^verbatim>\<open>glm::vec2\<close>, \<^verbatim>\<open>glm::vec3\<close> and \<^verbatim>\<open>glm::vec4\<close> are
  tuples of components, \<^verbatim>\<open>glm::mat4\<close> is four columns.
\<close>

datatype vec2 = Vec2 real real

datatype vec3 = Vec3 real real real

datatype vec4 = Vec4 real real real real

datatype mat4 = Mat4 vec4 vec4 vec4 vec4

text \<open>\<^verbatim>\<open>a + b\<close>, \<^verbatim>\<open>a - b\<close> and \<^verbatim>\<open>a * s\<close> on \<^verbatim>\<open>glm::vec3\<close>.\<close>

fun vec3_add :: "vec3 \<Rightarrow> vec3 \<Rightarrow> vec3" where
  "vec3_add (Vec3 ax ay az) (Vec3 bx by bz) = Vec3 (ax + bx) (ay + by) (az + bz)"

fun vec3_sub :: "vec3 \<Rightarrow> vec3 \<Rightarrow> vec3" where
  "vec3_sub (Vec3 ax ay az) (Vec3 bx by bz) = Vec3 (ax - bx) (ay - by) (az - bz)"

fun vec3_scale :: "vec3 \<Rightarrow> real \<Rightarrow> vec3" where
  "vec3_scale (Vec3 ax ay az) s = Vec3 (ax * s) (ay * s) (az * s)"

text \<open>\<^verbatim>\<open>glm::dot\<close>, \<^verbatim>\<open>glm::cross\<close>, \<^verbatim>\<open>glm::length\<close>.\<close>

fun dot :: "vec3 \<Rightarrow> vec3 \<Rightarrow> real" where
  "dot (Vec3 ax ay az) (Vec3 bx by bz) = ax * bx + ay * by + az * bz"

fun cross :: "vec3 \<Rightarrow> vec3 \<Rightarrow> vec3" where
  "cross (Vec3 ax ay az) (Vec3 bx by bz) =
     Vec3 (ay * bz - by * az) (az * bx - bz * ax) (ax * by - bx * ay)"


text \<open>
  \<^verbatim>\<open>glm::inversesqrt\<close> and \<^verbatim>\<open>glm::normalize\<close>, which is \<^verbatim>\<open>v * inversesqrt(dot(v, v))\<close>.
  On the zero vector the C++ yields NaN components; the HOL term yields the zero vector,
  since \<open>1 / 0 = 0\<close> in HOL. Statements about \<open>vec3_normalize\<close> therefore carry the hypothesis
  that its argument is not the zero vector.
\<close>

definition inversesqrt :: "real \<Rightarrow> real" where
  "inversesqrt r = 1 / sqrt r"

definition vec3_normalize :: "vec3 \<Rightarrow> vec3" where
  "vec3_normalize v = vec3_scale v (inversesqrt (dot v v))"

text \<open>\<^verbatim>\<open>glm::radians\<close>: degrees to radians.\<close>

definition radians :: "real \<Rightarrow> real" where
  "radians degrees = degrees * (pi / 180)"

section \<open>The camera\<close>

record Camera =
  Position :: vec3
  Front :: vec3
  Up :: vec3
  Right :: vec3
  WorldUp :: vec3
  Yaw :: real
  Pitch :: real
  MovementSpeed :: real
  MouseSensitivity :: real
  Zoom :: real

text \<open>
  The local \<^verbatim>\<open>front\<close> of \<^verbatim>\<open>updateCameraVectors\<close>, before it is normalised, and
  \<^verbatim>\<open>updateCameraVectors\<close>, both in exact arithmetic.
\<close>

definition front_of_angles :: "real \<Rightarrow> real \<Rightarrow> vec3" where
  "front_of_angles yaw pitch =
     Vec3 (cos (radians yaw) * cos (radians pitch))
          (sin (radians pitch))
          (sin (radians yaw) * cos (radians pitch))"

definition updateCameraVectors :: "Camera \<Rightarrow> Camera" where
  "updateCameraVectors c =
     (let front = front_of_angles (Yaw c) (Pitch c);
          c1 = c\<lparr>Front := vec3_normalize front\<rparr>;
          c2 = c1\<lparr>Right := vec3_normalize (cross (Front c1) (WorldUp c1))\<rparr>;
          c3 = c2\<lparr>Up := vec3_normalize (cross (Right c2) (Front c2))\<rparr>
      in c3)"

text \<open>
  The constructor. \<^verbatim>\<open>Up\<close> and \<^verbatim>\<open>Right\<close> have no initialiser; \<^verbatim>\<open>updateCameraVectors\<close>
  overwrites both (and \<^verbatim>\<open>Front\<close>) before the constructor returns, so the zero vectors
  written here are never read.
\<close>

definition new_Camera :: "vec3 \<Rightarrow> vec3 \<Rightarrow> real \<Rightarrow> real \<Rightarrow> Camera" where
  "new_Camera position up yaw pitch =
     updateCameraVectors
       \<lparr>Position = position, Front = Vec3 0 0 (- 1), Up = Vec3 0 0 0, Right = Vec3 0 0 0,
        WorldUp = up, Yaw = yaw, Pitch = pitch,
        MovementSpeed = 2.5, MouseSensitivity = 0.1, Zoom = 45\<rparr>"

text \<open>The GLFW key codes that Main.cpp uses (\<^verbatim>\<open>GLFW/glfw3.h\<close>).\<close>

definition GLFW_KEY_A :: int where "GLFW_KEY_A = 65"
definition GLFW_KEY_D :: int where "GLFW_KEY_D = 68"
definition GLFW_KEY_E :: int where "GLFW_KEY_E = 69"
definition GLFW_KEY_L :: int where "GLFW_KEY_L = 76"
definition GLFW_KEY_Q :: int where "GLFW_KEY_Q = 81"
definition GLFW_KEY_S :: int where "GLFW_KEY_S = 83"
definition GLFW_KEY_W :: int where "GLFW_KEY_W = 87"
definition GLFW_KEY_ESCAPE :: int where "GLFW_KEY_ESCAPE = 256"

text \<open>
  \<^verbatim>\<open>ProcessKeyboard\<close>: six independent \<^verbatim>\<open>if\<close> statements, not an \<^verbatim>\<open>else if\<close> chain,
  each reading the \<^verbatim>\<open>Position\<close> left by the ones before it.
\<close>

definition ProcessKeyboard :: "int \<Rightarrow> real \<Rightarrow> Camera \<Rightarrow> Camera" where
  "ProcessKeyboard direction deltaTime c =
     (let velocity = MovementSpeed c * deltaTime;
          c = (if direction = GLFW_KEY_W
               then c\<lparr>Position := vec3_add (Position c) (vec3_scale (Front c) velocity)\<rparr> else c);
          c = (if direction = GLFW_KEY_S
               then c\<lparr>Position := vec3_sub (Position c) (vec3_scale (Front c) velocity)\<rparr> else c);
          c = (if direction = GLFW_KEY_A
               then c\<lparr>Position := vec3_sub (Position c) (vec3_scale (Right c) velocity)\<rparr> else c);
          c = (if direction = GLFW_KEY_D
               then c\<lparr>Position := vec3_add (Position c) (vec3_scale (Right c) velocity)\<rparr> else c);
          c = (if direction = GLFW_KEY_Q
               then c\<lparr>Position := vec3_add (Position c) (vec3_scale (Up c) velocity)\<rparr> else c);
          c = (if direction = GLFW_KEY_E
               then c\<lparr>Position := vec3_sub (Position c) (vec3_scale (Up c) velocity)\<rparr> else c)
      in c)"





section \<open>Matrices\<close>

fun vec4_add :: "vec4 \<Rightarrow> vec4 \<Rightarrow> vec4" where
  "vec4_add (Vec4 ax ay az aw) (Vec4 bx by bz bw) = Vec4 (ax + bx) (ay + by) (az + bz) (aw + bw)"

fun vec4_scale :: "vec4 \<Rightarrow> real \<Rightarrow> vec4" where
  "vec4_scale (Vec4 ax ay az aw) s = Vec4 (ax * s) (ay * s) (az * s) (aw * s)"

text \<open>Componentwise \<^verbatim>\<open>a * b\<close> on \<^verbatim>\<open>vec4\<close> (GLSL), and the constructor \<^verbatim>\<open>vec4(v, w)\<close>.\<close>

fun vec4_mul :: "vec4 \<Rightarrow> vec4 \<Rightarrow> vec4" where
  "vec4_mul (Vec4 ax ay az aw) (Vec4 bx by bz bw) = Vec4 (ax * bx) (ay * by) (az * bz) (aw * bw)"

fun vec4_of_vec3 :: "vec3 \<Rightarrow> real \<Rightarrow> vec4" where
  "vec4_of_vec3 (Vec3 vx vy vz) w = Vec4 vx vy vz w"

text \<open>\<^verbatim>\<open>glm::mat4(1.0f)\<close> and the product \<^verbatim>\<open>m * v\<close> of a matrix and a column vector.\<close>

definition mat4_identity :: mat4 where
  "mat4_identity = Mat4 (Vec4 1 0 0 0) (Vec4 0 1 0 0) (Vec4 0 0 1 0) (Vec4 0 0 0 1)"

fun mat4_mul_vec4 :: "mat4 \<Rightarrow> vec4 \<Rightarrow> vec4" where
  "mat4_mul_vec4 (Mat4 c0 c1 c2 c3) (Vec4 vx vy vz vw) =
     vec4_add (vec4_add (vec4_add (vec4_scale c0 vx) (vec4_scale c1 vy)) (vec4_scale c2 vz))
       (vec4_scale c3 vw)"

text \<open>
  \<^verbatim>\<open>glm::rotate(m, angle, v)\<close> of GLM's \<^verbatim>\<open>matrix_transform\<close>: the entries
  \<^verbatim>\<open>Rotate[i][j]\<close> of the rotation about the normalised axis, then
  \<^verbatim>\<open>Result[i] = m[0] * Rotate[i][0] + m[1] * Rotate[i][1] + m[2] * Rotate[i][2]\<close> for the first
  three columns and \<^verbatim>\<open>Result[3] = m[3]\<close>.
\<close>

fun glm_rotate :: "mat4 \<Rightarrow> real \<Rightarrow> vec3 \<Rightarrow> mat4" where
  "glm_rotate (Mat4 m0 m1 m2 m3) angle v =
     (let c = cos angle;
          s = sin angle
      in case vec3_normalize v of Vec3 a0 a1 a2 \<Rightarrow>
         (case vec3_scale (Vec3 a0 a1 a2) (1 - c) of Vec3 t0 t1 t2 \<Rightarrow>
            (let r00 = c + t0 * a0;
                 r01 = t0 * a1 + s * a2;
                 r02 = t0 * a2 - s * a1;
                 r10 = t1 * a0 - s * a2;
                 r11 = c + t1 * a1;
                 r12 = t1 * a2 + s * a0;
                 r20 = t2 * a0 + s * a1;
                 r21 = t2 * a1 - s * a0;
                 r22 = c + t2 * a2
             in Mat4
                  (vec4_add (vec4_add (vec4_scale m0 r00) (vec4_scale m1 r01)) (vec4_scale m2 r02))
                  (vec4_add (vec4_add (vec4_scale m0 r10) (vec4_scale m1 r11)) (vec4_scale m2 r12))
                  (vec4_add (vec4_add (vec4_scale m0 r20) (vec4_scale m1 r21)) (vec4_scale m2 r22))
                  m3)))"

text \<open>\<^verbatim>\<open>glm::lookAt\<close> (right-handed) and \<^verbatim>\<open>glm::perspective\<close> (right-handed, depth -1 to 1).\<close>

definition lookAt :: "vec3 \<Rightarrow> vec3 \<Rightarrow> vec3 \<Rightarrow> mat4" where
  "lookAt eye center up =
     (let f = vec3_normalize (vec3_sub center eye);
          s = vec3_normalize (cross f up);
          u = cross s f
      in case (s, u, f) of (Vec3 sx sy sz, Vec3 ux uy uz, Vec3 fx fy fz) \<Rightarrow>
           Mat4 (Vec4 sx ux (- fx) 0) (Vec4 sy uy (- fy) 0) (Vec4 sz uz (- fz) 0)
                (Vec4 (- dot s eye) (- dot u eye) (dot f eye) 1))"

definition perspective :: "real \<Rightarrow> real \<Rightarrow> real \<Rightarrow> real \<Rightarrow> mat4" where
  "perspective fovy aspect zNear zFar =
     (let tanHalfFovy = tan (fovy / 2)
      in Mat4 (Vec4 (1 / (aspect * tanHalfFovy)) 0 0 0)
              (Vec4 0 (1 / tanHalfFovy) 0 0)
              (Vec4 0 0 (- (zFar + zNear) / (zFar - zNear)) (- 1))
              (Vec4 0 0 (- (2 * zFar * zNear) / (zFar - zNear)) 0))"

definition GetViewMatrix :: "Camera \<Rightarrow> mat4" where
  "GetViewMatrix c = lookAt (Position c) (vec3_add (Position c) (Front c)) (Up c)"

section \<open>The fragment shader\<close>

text \<open>
  \<^verbatim>\<open>fragmentShaderSource\<close>. The sampler \<^verbatim>\<open>texture1\<close> is the function that
  \<^verbatim>\<open>texture(texture1, TexCoord)\<close> evaluates; \<^verbatim>\<open>ourColor\<close> and \<^verbatim>\<open>TexCoord\<close> arrive
  interpolated; the result is \<^verbatim>\<open>FragColor\<close>.
\<close>

type_synonym sampler2D = "vec2 \<Rightarrow> vec4"

definition fragment_main :: "sampler2D \<Rightarrow> bool \<Rightarrow> vec3 \<Rightarrow> vec2 \<Rightarrow> vec4" where
  "fragment_main texture1 light ourColor TexCoord =
     (let texColor = texture1 TexCoord
      in if light then vec4_mul texColor (vec4_of_vec3 ourColor 1)
         else vec4_of_vec3 ourColor 1)"

section \<open>The OpenGL state that main acts on\<close>

text \<open>
  The part of the GL context that the claims speak of: the data stores of the buffer
  objects, the two buffer bindings and the values of the uniforms. \<open>calls\<close> is the list of
  the GL calls that the body of \<^verbatim>\<open>main\<close> and \<^verbatim>\<open>initGLFWandGLAD\<close> have made so far, the
  oldest first. The calls of \<^verbatim>\<open>createShaderProgram\<close> act on shader and program objects only;
  of those objects the model keeps whether the program linked.
\<close>

datatype buffer_target = GL_ARRAY_BUFFER | GL_ELEMENT_ARRAY_BUFFER

datatype buffer_data = FloatData "real list" | UIntData "32 word list"

datatype uniform_value = UInt int | UMat4 mat4

text \<open>
  A uniform location is the name of the uniform it stands for, or \<open>None\<close> for the
  location -1 that \<^verbatim>\<open>glGetUniformLocation\<close> returns when the program did not link.
\<close>

type_synonym location = "string option"

datatype gl_call =
    Viewport int int int int
  | GenVertexArrays nat
  | GenBuffers nat
  | GenTextures nat
  | BindVertexArray nat
  | BindBuffer buffer_target nat
  | BufferData buffer_target buffer_data
  | VertexAttribPointer nat nat nat nat
  | EnableVertexAttribArray nat
  | UseProgram
  | BindTexture nat
  | TexParameteri
  | TexImage2D int int
  | GenerateMipmap
  | GetUniformLocation string
  | Uniform1i location int
  | UniformMatrix4fv location mat4
  | Clear
  | Enable_DEPTH_TEST
  | DrawElements nat
  | DeleteVertexArrays nat
  | DeleteBuffers nat
  | DeleteProgram

record gl_state =
  calls :: "gl_call list"
  next_name :: nat
  array_buffer_binding :: nat
  element_array_buffer_binding :: nat
  buffer_store :: "nat \<Rightarrow> buffer_data option"
  uniforms :: "string \<Rightarrow> uniform_value option"

definition gl_initial :: gl_state where
  "gl_initial =
     \<lparr>calls = [], next_name = 1, array_buffer_binding = 0, element_array_buffer_binding = 0,
      buffer_store = (\<lambda>_. None), uniforms = (\<lambda>_. None)\<rparr>"

definition bound_buffer :: "buffer_target \<Rightarrow> gl_state \<Rightarrow> nat" where
  "bound_buffer t g =
     (case t of GL_ARRAY_BUFFER \<Rightarrow> array_buffer_binding g
              | GL_ELEMENT_ARRAY_BUFFER \<Rightarrow> element_array_buffer_binding g)"

text \<open>
  What a call does to that state. \<^verbatim>\<open>glGen*\<close> hands out the next unused name;
  \<^verbatim>\<open>glBufferData\<close> replaces the data store of the buffer bound to the target (and is an
  error without effect when none is bound); \<^verbatim>\<open>glUniform*\<close> ignores location -1. The calls of
  the last equation touch the framebuffer, the texture, the vertex array object or the
  program object, none of which is part of \<open>gl_state\<close>.
\<close>

fun gl_effect :: "gl_call \<Rightarrow> gl_state \<Rightarrow> gl_state" where
  "gl_effect (GenVertexArrays n) g = g\<lparr>next_name := n + 1\<rparr>"
| "gl_effect (GenBuffers n) g = g\<lparr>next_name := n + 1\<rparr>"
| "gl_effect (GenTextures n) g = g\<lparr>next_name := n + 1\<rparr>"
| "gl_effect (BindBuffer GL_ARRAY_BUFFER n) g = g\<lparr>array_buffer_binding := n\<rparr>"
| "gl_effect (BindBuffer GL_ELEMENT_ARRAY_BUFFER n) g = g\<lparr>element_array_buffer_binding := n\<rparr>"
| "gl_effect (BufferData t d) g =
     (if bound_buffer t g = 0 then g
      else g\<lparr>buffer_store := (buffer_store g)(bound_buffer t g := Some d)\<rparr>)"
| "gl_effect (Uniform1i loc v) g =
     (case loc of None \<Rightarrow> g | Some name \<Rightarrow> g\<lparr>uniforms := (uniforms g)(name := Some (UInt v))\<rparr>)"
| "gl_effect (UniformMatrix4fv loc m) g =
     (case loc of None \<Rightarrow> g | Some name \<Rightarrow> g\<lparr>uniforms := (uniforms g)(name := Some (UMat4 m))\<rparr>)"
| "gl_effect (DeleteBuffers n) g =
     g\<lparr>buffer_store := (buffer_store g)(n := None),
       array_buffer_binding := (if array_buffer_binding g = n then 0 else array_buffer_binding g),
       element_array_buffer_binding :=
         (if element_array_buffer_binding g = n then 0 else element_array_buffer_binding g)\<rparr>"
| "gl_effect _ g = g"

definition issue :: "gl_call \<Rightarrow> gl_state \<Rightarrow> gl_state" where
  "issue c g = gl_effect c (g\<lparr>calls := calls g @ [c]\<rparr>)"

definition glGenVertexArrays :: "gl_state \<Rightarrow> nat \<times> gl_state" where
  "glGenVertexArrays g = (next_name g, issue (GenVertexArrays (next_name g)) g)"

definition glGenBuffers :: "gl_state \<Rightarrow> nat \<times> gl_state" where
  "glGenBuffers g = (next_name g, issue (GenBuffers (next_name g)) g)"

definition glGenTextures :: "gl_state \<Rightarrow> nat \<times> gl_state" where
  "glGenTextures g = (next_name g, issue (GenTextures (next_name g)) g)"

definition glGetUniformLocation :: "bool \<Rightarrow> string \<Rightarrow> gl_state \<Rightarrow> location \<times> gl_state" where
  "glGetUniformLocation linked name g =
     ((if linked then Some name else None), issue (GetUniformLocation name) g)"

text \<open>The calls that write to a buffer object, and the draw calls.\<close>

fun writes_buffer :: "gl_call \<Rightarrow> bool" where
  "writes_buffer (BufferData t d) = True"
| "writes_buffer (DeleteBuffers n) = True"
| "writes_buffer _ = False"

fun is_draw :: "gl_call \<Rightarrow> bool" where
  "is_draw (DrawElements n) = True"
| "is_draw _ = False"

fun is_Uniform1i :: "gl_call \<Rightarrow> bool" where
  "is_Uniform1i (Uniform1i loc v) = True"
| "is_Uniform1i _ = False"

section \<open>What the environment answers\<close>

text \<open>
  The results of the calls whose outcome the program checks: whether GLFW, the window and
  GLAD came up, the framebuffer size, the compile and link status of the shaders with
  their info logs, and what \<^verbatim>\<open>stbi_load\<close> returned (width, height and channels of the
  image, or \<open>None\<close> for the null pointer).
\<close>

record environment =
  glfwInit_ok :: bool
  glfwCreateWindow_ok :: bool
  gladLoadGLLoader_ok :: bool
  framebuffer_size :: "int \<times> int"
  vertex_compile_status :: bool
  vertex_infoLog :: string
  fragment_compile_status :: bool
  fragment_infoLog :: string
  link_status :: bool
  link_infoLog :: string
  stbi_load_result :: "(int \<times> int \<times> int) option"

text \<open>
  One pass of the main loop reads the clock twice (\<^verbatim>\<open>currentFrame\<close>, and again for the
  model matrix), asks \<^verbatim>\<open>glfwGetKey\<close> for nine keys, and lets \<^verbatim>\<open>glfwPollEvents\<close> deliver
  the window system's events, of which the request to close the window is the one that the
  loop guard reads.
\<close>

record frame_input =
  time_at_start :: real
  time_at_render :: real
  key_pressed :: "int \<Rightarrow> bool"
  close_requested :: bool

definition EXIT_FAILURE :: int where
  "EXIT_FAILURE = 1"

section \<open>initGLFWandGLAD and createShaderProgram\<close>

text \<open>
  Standard error is the list of the lines written to \<^verbatim>\<open>std::cerr\<close>, one entry for each
  statement that ends in \<^verbatim>\<open>std::endl\<close>. \<open>Inl code\<close> is \<^verbatim>\<open>exit(code)\<close>; the
  \<^verbatim>\<open>glfwTerminate\<close> that precedes the second \<^verbatim>\<open>exit\<close> writes nothing and leaves no state
  behind. \<open>Inr\<close> carries the GL context of the new window, in which \<^verbatim>\<open>glViewport\<close> has
  been called.
\<close>

definition initGLFWandGLAD :: "environment \<Rightarrow> string list \<times> (int + gl_state)" where
  "initGLFWandGLAD env =
     (if \<not> glfwInit_ok env then ([''Failed to initialize GLFW''], Inl EXIT_FAILURE)
      else if \<not> glfwCreateWindow_ok env then ([''Failed to create GLFW window''], Inl EXIT_FAILURE)
      else if \<not> gladLoadGLLoader_ok env then ([''Failed to initialize GLAD''], Inl EXIT_FAILURE)
      else ([], Inr (issue (Viewport 0 0 (fst (framebuffer_size env)) (snd (framebuffer_size env)))
                      gl_initial)))"

text \<open>
  \<^verbatim>\<open>createShaderProgram\<close>: three checks, none of which returns early. The result is
  standard error extended, and whether the program linked.
\<close>

definition createShaderProgram :: "environment \<Rightarrow> string list \<Rightarrow> string list \<times> bool" where
  "createShaderProgram env err =
     (let err = (if \<not> vertex_compile_status env
                 then err @ [''ERROR::SHADER::VERTEX::COMPILATION_FAILED'' @ [CHR 0x0A] @ vertex_infoLog env]
                 else err);
          err = (if \<not> fragment_compile_status env
                 then err @ [''ERROR::SHADER::FRAGMENT::COMPILATION_FAILED'' @ [CHR 0x0A] @ fragment_infoLog env]
                 else err);
          err = (if \<not> link_status env
                 then err @ [''ERROR::SHADER::PROGRAM::LINKING_FAILED'' @ [CHR 0x0A] @ link_infoLog env]
                 else err)
      in (err, link_status env))"

section \<open>main\<close>

subsection \<open>The geometry\<close>

text \<open>The initialisers of the local arrays \<^verbatim>\<open>vertices\<close> and \<^verbatim>\<open>indices\<close>.\<close>

definition vertices_initializer :: "real list" where
  "vertices_initializer =
     [- 5, 0, - 5,  0, 1, 0,  0, 0,
      5, 0, - 5,  0, 1, 0,  0, 0,
      5, 0, 5,  0, 1, 0,  0, 0,
      - 5, 0, 5,  0, 1, 0,  0, 0,

      - 1, 0, - 1,  1, 1, 1,  0, 1,
      - 1, 2, - 1,  1, 1, 1,  0, 0,
      1, 2, - 1,  1, 1, 1,  1, 0,
      1, 0, - 1,  1, 1, 1,  1, 1,
      - 1, 0, 1,  1, 1, 1,  0, 1,
      - 1, 2, 1,  1, 1, 1,  0, 0,
      1, 2, 1,  1, 1, 1,  1, 0,
      1, 0, 1,  1, 1, 1,  1, 1,

      2, 0, 2,  1, 1, 1,  0, 1,
      2, 3, 2,  1, 1, 1,  0, 0,
      4, 3, 2,  1, 1, 1,  1, 0,
      4, 0, 2,  1, 1, 1,  1, 1,
      2, 0, 4,  1, 1, 1,  0, 1,
      2, 3, 4,  1, 1, 1,  0, 0,
      4, 3, 4,  1, 1, 1,  1, 0,
      4, 0, 4,  1, 1, 1,  1, 1]"

definition indices_initializer :: "32 word list" where
  "indices_initializer =
     [0, 1, 2, 2, 3, 0,

      4, 5, 6, 6, 7, 4,
      4, 5, 9, 9, 8, 4,
      5, 6, 10, 10, 9, 5,
      6, 7, 11, 11, 10, 6,
      7, 4, 8, 8, 11, 7,
      8, 9, 10, 10, 11, 8,

      12, 13, 14, 14, 15, 12,
      12, 13, 17, 17, 16, 12,
      13, 14, 18, 18, 17, 13,
      14, 15, 19, 19, 18, 14,
      15, 12, 16, 16, 19, 15,
      16, 17, 18, 18, 19, 16]"

definition sizeof_float :: nat where
  "sizeof_float = 4"

definition sizeof_GLuint :: nat where
  "sizeof_GLuint = 4"

text \<open>The vertex layout that the three \<^verbatim>\<open>glVertexAttribPointer\<close> calls declare.\<close>

definition floats_per_vertex :: nat where
  "floats_per_vertex = (8 * sizeof_float) div sizeof_float"

subsection \<open>The state of main\<close>

text \<open>
  The locals of \<^verbatim>\<open>main\<close> that are alive in the loop, the GL state, the should-close
  flag of the window, and whether \<^verbatim>\<open>glfwTerminate\<close> has been called.
\<close>

record main_state =
  gls :: gl_state
  windowShouldClose :: bool
  vertices :: "real list"
  indices :: "32 word list"
  VAO :: nat
  VBO :: nat
  EBO :: nat
  texture :: nat
  modelLoc :: location
  viewLoc :: location
  projLoc :: location
  lightOnLoc :: location
  lightOn :: bool
  camera :: Camera
  deltaTime :: real
  lastFrame :: real
  glfw_terminated :: bool

subsection \<open>Before the loop\<close>

text \<open>Lines 250 to 273: the objects are generated and bound, the two buffers filled.\<close>

definition upload_geometry :: "gl_state \<Rightarrow> (nat \<times> nat \<times> nat) \<times> gl_state" where
  "upload_geometry g0 =
     (let (vao, g) = glGenVertexArrays g0;
          (vbo, g) = glGenBuffers g;
          (ebo, g) = glGenBuffers g;
          g = issue (BindVertexArray vao) g;
          g = issue (BindBuffer GL_ARRAY_BUFFER vbo) g;
          g = issue (BufferData GL_ARRAY_BUFFER (FloatData vertices_initializer)) g;
          g = issue (BindBuffer GL_ELEMENT_ARRAY_BUFFER ebo) g;
          g = issue (BufferData GL_ELEMENT_ARRAY_BUFFER (UIntData indices_initializer)) g;
          g = issue (VertexAttribPointer 0 3 (8 * sizeof_float) 0) g;
          g = issue (EnableVertexAttribArray 0) g;
          g = issue (VertexAttribPointer 1 3 (8 * sizeof_float) (3 * sizeof_float)) g;
          g = issue (EnableVertexAttribArray 1) g;
          g = issue (VertexAttribPointer 2 2 (8 * sizeof_float) (6 * sizeof_float)) g;
          g = issue (EnableVertexAttribArray 2) g
      in ((vao, vbo, ebo), g))"

text \<open>Lines 280 to 299: the texture object, and the one message of \<^verbatim>\<open>main\<close> itself.\<close>

definition load_texture ::
  "environment \<Rightarrow> string list \<Rightarrow> gl_state \<Rightarrow> string list \<times> nat \<times> gl_state" where
  "load_texture env err g0 =
     (let (tex, g) = glGenTextures g0;
          g = issue (BindTexture tex) g;
          g = issue TexParameteri g;
          g = issue TexParameteri g;
          g = issue TexParameteri g;
          g = issue TexParameteri g
      in case stbi_load_result env of
           Some (width, height, nrChannels) \<Rightarrow>
             (err, tex, issue GenerateMipmap (issue (TexImage2D width height) g))
         | None \<Rightarrow> (err @ [''Failed to load texture''], tex, g))"

text \<open>Lines 197 to 319.\<close>

definition main_setup :: "environment \<Rightarrow> string list \<Rightarrow> gl_state \<Rightarrow> string list \<times> main_state" where
  "main_setup env err0 g0 =
     (let ((vao, vbo, ebo), g) = upload_geometry g0;
          (err, shaderProgram) = createShaderProgram env err0;
          g = issue UseProgram g;
          (err, tex, g) = load_texture env err g;
          projection = perspective (radians 45) (800 / 600) 0.1 100;
          (model_loc, g) = glGetUniformLocation shaderProgram ''model'' g;
          (view_loc, g) = glGetUniformLocation shaderProgram ''view'' g;
          (proj_loc, g) = glGetUniformLocation shaderProgram ''projection'' g;
          (light_loc, g) = glGetUniformLocation shaderProgram ''lightOn'' g;
          g = issue (UniformMatrix4fv proj_loc projection) g;
          light = True;
          g = issue (Uniform1i light_loc (of_bool light)) g
      in (err,
          \<lparr>gls = g, windowShouldClose = False,
           vertices = vertices_initializer, indices = indices_initializer,
           VAO = vao, VBO = vbo, EBO = ebo, texture = tex,
           modelLoc = model_loc, viewLoc = view_loc, projLoc = proj_loc, lightOnLoc = light_loc,
           lightOn = light,
           camera = new_Camera (Vec3 0 0 5) (Vec3 0 1 0) (- 90) 0,
           deltaTime = 0, lastFrame = 0, glfw_terminated = False\<rparr>))"

subsection \<open>One pass of the loop body\<close>

text \<open>Lines 324 to 326.\<close>

definition frame_time :: "frame_input \<Rightarrow> main_state \<Rightarrow> main_state" where
  "frame_time i st =
     (let currentFrame = time_at_start i;
          st = st\<lparr>deltaTime := currentFrame - lastFrame st\<rparr>
      in st\<lparr>lastFrame := currentFrame\<rparr>)"

text \<open>Lines 329 to 331.\<close>

definition escape_key :: "frame_input \<Rightarrow> main_state \<Rightarrow> main_state" where
  "escape_key i st =
     (if key_pressed i GLFW_KEY_ESCAPE then st\<lparr>windowShouldClose := True\<rparr> else st)"

text \<open>Lines 334 to 345.\<close>

definition move_key :: "frame_input \<Rightarrow> int \<Rightarrow> main_state \<Rightarrow> main_state" where
  "move_key i k st =
     (if key_pressed i k then st\<lparr>camera := ProcessKeyboard k (deltaTime st) (camera st)\<rparr> else st)"

definition camera_controls :: "frame_input \<Rightarrow> main_state \<Rightarrow> main_state" where
  "camera_controls i st =
     (let st = move_key i GLFW_KEY_W st;
          st = move_key i GLFW_KEY_S st;
          st = move_key i GLFW_KEY_A st;
          st = move_key i GLFW_KEY_D st;
          st = move_key i GLFW_KEY_Q st;
          st = move_key i GLFW_KEY_E st
      in st)"

text \<open>Lines 348 to 351.\<close>

definition toggle_light :: "frame_input \<Rightarrow> main_state \<Rightarrow> main_state" where
  "toggle_light i st =
     (if key_pressed i GLFW_KEY_L
      then (let st = st\<lparr>lightOn := \<not> lightOn st\<rparr>
            in st\<lparr>gls := issue (Uniform1i (lightOnLoc st) (of_bool (lightOn st))) (gls st)\<rparr>)
      else st)"

text \<open>Lines 354 to 366.\<close>

definition render :: "frame_input \<Rightarrow> main_state \<Rightarrow> main_state" where
  "render i st =
     (let g = issue Clear (gls st);
          g = issue Enable_DEPTH_TEST g;
          view = GetViewMatrix (camera st);
          g = issue (UniformMatrix4fv (viewLoc st) view) g;
          model = mat4_identity;
          model = glm_rotate model (time_at_render i * radians 50) (Vec3 0 1 0);
          g = issue (UniformMatrix4fv (modelLoc st) model) g;
          g = issue (BindTexture (texture st)) g;
          g = issue (BindVertexArray (VAO st)) g;
          g = issue (DrawElements ((length (indices st) * sizeof_GLuint) div sizeof_GLuint)) g
      in st\<lparr>gls := g\<rparr>)"

text \<open>
  Lines 369 and 370. \<^verbatim>\<open>glfwSwapBuffers\<close> changes nothing that \<open>main_state\<close> holds;
  \<^verbatim>\<open>glfwPollEvents\<close> raises the should-close flag when the window system asked to close
  the window, and never lowers it.
\<close>

definition poll_events :: "frame_input \<Rightarrow> main_state \<Rightarrow> main_state" where
  "poll_events i st = st\<lparr>windowShouldClose := (windowShouldClose st \<or> close_requested i)\<rparr>"

definition loop_iteration :: "frame_input \<Rightarrow> main_state \<Rightarrow> main_state" where
  "loop_iteration i st =
     poll_events i (render i (toggle_light i (camera_controls i (escape_key i (frame_time i st)))))"

subsection \<open>The loop, the cleanup and main\<close>

text \<open>
  The loop consumes one \<open>frame_input\<close> for each pass. \<open>Some\<close> is the state in which the
  guard \<^verbatim>\<open>!glfwWindowShouldClose(window)\<close> failed; \<open>None\<close> says that the loop was still
  running when the given inputs were used up.
\<close>

fun run_loop :: "frame_input list \<Rightarrow> main_state \<Rightarrow> main_state option" where
  "run_loop [] st = (if windowShouldClose st then Some st else None)"
| "run_loop (i # rest) st =
     (if windowShouldClose st then Some st else run_loop rest (loop_iteration i st))"

text \<open>The passes themselves, whatever the guard says: the states that the loop goes through.\<close>

fun run_frames :: "frame_input list \<Rightarrow> main_state \<Rightarrow> main_state" where
  "run_frames [] st = st"
| "run_frames (i # rest) st = run_frames rest (loop_iteration i st)"

text \<open>Lines 374 to 377.\<close>

definition cleanup :: "main_state \<Rightarrow> main_state" where
  "cleanup st =
     (let g = issue (DeleteVertexArrays (VAO st)) (gls st);
          g = issue (DeleteBuffers (VBO st)) g;
          g = issue (DeleteBuffers (EBO st)) g;
          g = issue DeleteProgram g
      in st\<lparr>gls := g\<rparr>)"

text \<open>Line 379.\<close>

definition glfwTerminate :: "main_state \<Rightarrow> main_state" where
  "glfwTerminate st = st\<lparr>glfw_terminated := True\<rparr>"

text \<open>
  How a run of \<^verbatim>\<open>main\<close> ends: \<^verbatim>\<open>exit(code)\<close> during start-up, \<^verbatim>\<open>return code\<close> after the
  cleanup and \<^verbatim>\<open>glfwTerminate\<close> (with the state that they left), or still in the loop when
  the given frames are used up. The first component of the result of \<open>main\<close> is standard error.
\<close>

datatype outcome = Exited int | Returned int main_state | Running

definition main :: "environment \<Rightarrow> frame_input list \<Rightarrow> string list \<times> outcome" where
  "main env frames =
     (case initGLFWandGLAD env of
        (err, Inl code) \<Rightarrow> (err, Exited code)
      | (err, Inr g) \<Rightarrow>
          (let (err, st) = main_setup env err g
           in case run_loop frames st of
                None \<Rightarrow> (err, Running)
              | Some st \<Rightarrow> (err, Returned 0 (glfwTerminate (cleanup st)))))"

text \<open>What the claims about the model matrix speak of: the rotation about the Y axis.\<close>

definition rotation_about_y :: "real \<Rightarrow> mat4" where
  "rotation_about_y a =
     Mat4 (Vec4 (cos a) 0 (- sin a) 0) (Vec4 0 1 0 0) (Vec4 (sin a) 0 (cos a) 0) (Vec4 0 0 0 1)"

subsection \<open>Observations used by the claims\<close>

text \<open>The GL calls that one pass of the loop body makes.\<close>

definition frame_calls :: "frame_input \<Rightarrow> main_state \<Rightarrow> gl_call list" where
  "frame_calls i st = drop (length (calls (gls st))) (calls (gls (loop_iteration i st)))"

text \<open>The second camera is the first one with, at most, another \<open>Position\<close>.\<close>

definition only_Position_differs :: "Camera \<Rightarrow> Camera \<Rightarrow> bool" where
  "only_Position_differs c c' = (c' = c\<lparr>Position := Position c'\<rparr>)"

text \<open>The code that the process exited with, if it called \<^verbatim>\<open>exit\<close>.\<close>

fun exit_code :: "outcome \<Rightarrow> int option" where
  "exit_code (Exited code) = Some code"
| "exit_code _ = None"

subsection \<open>Sample inputs\<close>

text \<open>
  An environment in which everything succeeds, a frame at clock reading \<open>t\<close> in which
  exactly the keys \<open>ks\<close> are reported pressed and no close request arrives, and the state
  in which \<open>main\<close> enters the loop in that environment.
\<close>

definition sample_environment :: environment where
  "sample_environment =
     \<lparr>glfwInit_ok = True, glfwCreateWindow_ok = True, gladLoadGLLoader_ok = True,
      framebuffer_size = (800, 600),
      vertex_compile_status = True, vertex_infoLog = [],
      fragment_compile_status = True, fragment_infoLog = [],
      link_status = True, link_infoLog = [],
      stbi_load_result = Some (512, 512, 3)\<rparr>"

definition sample_frame :: "real \<Rightarrow> int list \<Rightarrow> frame_input" where
  "sample_frame t ks =
     \<lparr>time_at_start = t, time_at_render = t, key_pressed = (\<lambda>k. k \<in> set ks),
      close_requested = False\<rparr>"

definition sample_start :: main_state where
  "sample_start = snd (main_setup sample_environment [] (issue (Viewport 0 0 800 600) gl_initial))"

section \<open>binary32 arithmetic, and updateCameraVectors in it\<close>

text \<open>
  The values of IEEE 754 binary32, the \<^verbatim>\<open>float\<close> of the program: the finite numbers, the two
  infinities and NaN. \<open>Finite\<close> is meant for the real numbers that binary32 represents,
  which are the ones that \<open>round32\<close> returns. The two zeros are one value here; where the
  sign of a zero would matter (division by zero), the zero is taken to be +0, which is the
  only zero that a sum of squares or its square root can be.
\<close>

datatype binary32 = Finite real | PlusInfinity | MinusInfinity | NaN

text \<open>
  Rounding to nearest, ties to even. The binary32 numbers near \<open>r\<close> are the multiples of
  \<open>spacing32 e\<close> for the exponent \<open>e\<close> of \<open>r\<close>, which is at least -126 (below it, the
  subnormal numbers have the spacing of exponent -126); a result of magnitude \<open>2 ^ 128\<close> or
  more overflows to an infinity.
\<close>

definition round_to_even :: "real \<Rightarrow> int" where
  "round_to_even x =
     (let n = \<lfloor>x\<rfloor>;
          d = x - of_int n
      in if d < 1 / 2 then n
         else if 1 / 2 < d then n + 1
         else if even n then n else n + 1)"

definition spacing32 :: "int \<Rightarrow> real" where
  "spacing32 e = (if 23 \<le> e then 2 ^ nat (e - 23) else 1 / 2 ^ nat (23 - e))"

definition round32 :: "real \<Rightarrow> binary32" where
  "round32 r =
     (if r = 0 then Finite 0
      else let e = max \<lfloor>log 2 \<bar>r\<bar>\<rfloor> (- 126);
               v = of_int (round_to_even (r / spacing32 e)) * spacing32 e
           in if 2 ^ 128 \<le> \<bar>v\<bar> then (if 0 < r then PlusInfinity else MinusInfinity)
              else Finite v)"

text \<open>
  The operations: the exact result, rounded, on finite operands; the IEEE 754 rules on
  infinities and NaN. Each operation rounds on its own, with no fused multiply-add and no
  wider intermediate precision. \<^verbatim>\<open>cos\<close> and \<^verbatim>\<open>sin\<close> are taken to be correctly rounded,
  which a C library need not be; at the argument 0 every library returns 1 and 0.
\<close>

definition negative32 :: "binary32 \<Rightarrow> bool" where
  "negative32 x = (case x of Finite a \<Rightarrow> a < 0 | MinusInfinity \<Rightarrow> True | _ \<Rightarrow> False)"

definition infinity32 :: "bool \<Rightarrow> binary32" where
  "infinity32 negative = (if negative then MinusInfinity else PlusInfinity)"

definition f32_add :: "binary32 \<Rightarrow> binary32 \<Rightarrow> binary32" where
  "f32_add x y =
     (case (x, y) of
        (Finite a, Finite b) \<Rightarrow> round32 (a + b)
      | (NaN, _) \<Rightarrow> NaN
      | (_, NaN) \<Rightarrow> NaN
      | (PlusInfinity, MinusInfinity) \<Rightarrow> NaN
      | (MinusInfinity, PlusInfinity) \<Rightarrow> NaN
      | (Finite a, z) \<Rightarrow> z
      | (z, _) \<Rightarrow> z)"

definition f32_neg :: "binary32 \<Rightarrow> binary32" where
  "f32_neg x =
     (case x of Finite a \<Rightarrow> Finite (- a) | PlusInfinity \<Rightarrow> MinusInfinity
      | MinusInfinity \<Rightarrow> PlusInfinity | NaN \<Rightarrow> NaN)"

definition f32_sub :: "binary32 \<Rightarrow> binary32 \<Rightarrow> binary32" where
  "f32_sub x y = f32_add x (f32_neg y)"

definition f32_mul :: "binary32 \<Rightarrow> binary32 \<Rightarrow> binary32" where
  "f32_mul x y =
     (case (x, y) of
        (Finite a, Finite b) \<Rightarrow> round32 (a * b)
      | _ \<Rightarrow> if x = NaN \<or> y = NaN \<or> x = Finite 0 \<or> y = Finite 0 then NaN
             else infinity32 (negative32 x \<noteq> negative32 y))"

definition f32_div :: "binary32 \<Rightarrow> binary32 \<Rightarrow> binary32" where
  "f32_div x y =
     (case (x, y) of
        (Finite a, Finite b) \<Rightarrow>
          if b \<noteq> 0 then round32 (a / b)
          else if a = 0 then NaN
          else infinity32 (a < 0)
      | (Finite a, PlusInfinity) \<Rightarrow> Finite 0
      | (Finite a, MinusInfinity) \<Rightarrow> Finite 0
      | (PlusInfinity, Finite b) \<Rightarrow> infinity32 (b < 0)
      | (MinusInfinity, Finite b) \<Rightarrow> infinity32 (\<not> b < 0)
      | _ \<Rightarrow> NaN)"

definition f32_sqrt :: "binary32 \<Rightarrow> binary32" where
  "f32_sqrt x =
     (case x of Finite a \<Rightarrow> if a < 0 then NaN else round32 (sqrt a)
      | PlusInfinity \<Rightarrow> PlusInfinity
      | _ \<Rightarrow> NaN)"

definition f32_cos :: "binary32 \<Rightarrow> binary32" where
  "f32_cos x = (case x of Finite a \<Rightarrow> round32 (cos a) | _ \<Rightarrow> NaN)"

definition f32_sin :: "binary32 \<Rightarrow> binary32" where
  "f32_sin x = (case x of Finite a \<Rightarrow> round32 (sin a) | _ \<Rightarrow> NaN)"
















section \<open>Vector algebra\<close>

lemmas key_defs = GLFW_KEY_A_def GLFW_KEY_D_def GLFW_KEY_E_def GLFW_KEY_L_def
  GLFW_KEY_Q_def GLFW_KEY_S_def GLFW_KEY_W_def GLFW_KEY_ESCAPE_def

lemma vec3_zero_iff: "dot v v = 0 \<longleftrightarrow> v = Vec3 0 0 0"
proof (cases v)
  case (Vec3 a b c)
  have "a * a + b * b + c * c = 0 \<longleftrightarrow> a = 0 \<and> b = 0 \<and> c = 0"
    by (smt (verit) mult_zero_left not_sum_squares_lt_zero sum_squares_eq_zero_iff zero_le_square add_nonneg_eq_0_iff)
  then show ?thesis using Vec3 by simp
qed

lemma dot_self_nonneg: "0 \<le> dot v v"
  by (cases v) simp

lemma dot_scale_left: "dot (vec3_scale a s) b = s * dot a b"
  by (cases a; cases b) (simp add: algebra_simps)

lemma dot_scale_right: "dot a (vec3_scale b s) = s * dot a b"
  by (cases a; cases b) (simp add: algebra_simps)








lemma inversesqrt_square: "0 < r \<Longrightarrow> inversesqrt r * inversesqrt r * r = 1"
  by (simp add: inversesqrt_def)

lemma normalize_unit:
  assumes "v \<noteq> Vec3 0 0 0"
  shows "dot (vec3_normalize v) (vec3_normalize v) = 1"
proof -
  have "0 < dot v v" using assms vec3_zero_iff [of v] dot_self_nonneg [of v] by linarith
  then show ?thesis
    by (simp add: vec3_normalize_def dot_scale_left dot_scale_right inversesqrt_square mult.assoc [symmetric])
qed

lemma normalize_nonzero: "v \<noteq> Vec3 0 0 0 \<Longrightarrow> vec3_normalize v \<noteq> Vec3 0 0 0"
  using normalize_unit [of v] by auto





section \<open>The GL calls and the passes of the loop\<close>

lemma calls_gl_effect: "calls (gl_effect c g) = calls g"
  by (induction c g rule: gl_effect.induct) (simp_all split: option.splits)

lemma calls_issue [simp]: "calls (issue c g) = calls g @ [c]"
  by (simp add: issue_def calls_gl_effect)

lemma buffer_store_issue:
  "\<not> writes_buffer c \<Longrightarrow> buffer_store (issue c g) = buffer_store g"
  unfolding issue_def
  by (induction c g rule: gl_effect.induct) (simp_all split: option.splits)

lemma ProcessKeyboard_frame:
  "ProcessKeyboard d dt c = c\<lparr>Position := Position (ProcessKeyboard d dt c)\<rparr>"
  by (simp add: ProcessKeyboard_def Let_def)

lemma frame_time_preserves [simp]:
  "gls (frame_time i st) = gls st"
  "windowShouldClose (frame_time i st) = windowShouldClose st"
  "vertices (frame_time i st) = vertices st"
  "indices (frame_time i st) = indices st"
  "VAO (frame_time i st) = VAO st"
  "VBO (frame_time i st) = VBO st"
  "EBO (frame_time i st) = EBO st"
  "texture (frame_time i st) = texture st"
  "modelLoc (frame_time i st) = modelLoc st"
  "viewLoc (frame_time i st) = viewLoc st"
  "projLoc (frame_time i st) = projLoc st"
  "lightOnLoc (frame_time i st) = lightOnLoc st"
  "lightOn (frame_time i st) = lightOn st"
  "camera (frame_time i st) = camera st"
  by (simp_all add: frame_time_def Let_def)

lemma escape_key_preserves [simp]:
  "gls (escape_key i st) = gls st"
  "vertices (escape_key i st) = vertices st"
  "indices (escape_key i st) = indices st"
  "VAO (escape_key i st) = VAO st"
  "VBO (escape_key i st) = VBO st"
  "EBO (escape_key i st) = EBO st"
  "texture (escape_key i st) = texture st"
  "modelLoc (escape_key i st) = modelLoc st"
  "viewLoc (escape_key i st) = viewLoc st"
  "projLoc (escape_key i st) = projLoc st"
  "lightOnLoc (escape_key i st) = lightOnLoc st"
  "lightOn (escape_key i st) = lightOn st"
  "camera (escape_key i st) = camera st"
  "deltaTime (escape_key i st) = deltaTime st"
  "lastFrame (escape_key i st) = lastFrame st"
  by (simp_all add: escape_key_def)

lemma move_key_preserves [simp]:
  "gls (move_key i k st) = gls st"
  "windowShouldClose (move_key i k st) = windowShouldClose st"
  "vertices (move_key i k st) = vertices st"
  "indices (move_key i k st) = indices st"
  "VAO (move_key i k st) = VAO st"
  "VBO (move_key i k st) = VBO st"
  "EBO (move_key i k st) = EBO st"
  "texture (move_key i k st) = texture st"
  "modelLoc (move_key i k st) = modelLoc st"
  "viewLoc (move_key i k st) = viewLoc st"
  "projLoc (move_key i k st) = projLoc st"
  "lightOnLoc (move_key i k st) = lightOnLoc st"
  "lightOn (move_key i k st) = lightOn st"
  "deltaTime (move_key i k st) = deltaTime st"
  "lastFrame (move_key i k st) = lastFrame st"
  by (simp_all add: move_key_def)

lemma camera_controls_preserves [simp]:
  "gls (camera_controls i st) = gls st"
  "windowShouldClose (camera_controls i st) = windowShouldClose st"
  "vertices (camera_controls i st) = vertices st"
  "indices (camera_controls i st) = indices st"
  "VAO (camera_controls i st) = VAO st"
  "VBO (camera_controls i st) = VBO st"
  "EBO (camera_controls i st) = EBO st"
  "texture (camera_controls i st) = texture st"
  "modelLoc (camera_controls i st) = modelLoc st"
  "viewLoc (camera_controls i st) = viewLoc st"
  "projLoc (camera_controls i st) = projLoc st"
  "lightOnLoc (camera_controls i st) = lightOnLoc st"
  "lightOn (camera_controls i st) = lightOn st"
  "deltaTime (camera_controls i st) = deltaTime st"
  "lastFrame (camera_controls i st) = lastFrame st"
  by (simp_all add: camera_controls_def Let_def)

lemma toggle_light_preserves [simp]:
  "windowShouldClose (toggle_light i st) = windowShouldClose st"
  "vertices (toggle_light i st) = vertices st"
  "indices (toggle_light i st) = indices st"
  "VAO (toggle_light i st) = VAO st"
  "VBO (toggle_light i st) = VBO st"
  "EBO (toggle_light i st) = EBO st"
  "texture (toggle_light i st) = texture st"
  "modelLoc (toggle_light i st) = modelLoc st"
  "viewLoc (toggle_light i st) = viewLoc st"
  "projLoc (toggle_light i st) = projLoc st"
  "lightOnLoc (toggle_light i st) = lightOnLoc st"
  "camera (toggle_light i st) = camera st"
  "deltaTime (toggle_light i st) = deltaTime st"
  "lastFrame (toggle_light i st) = lastFrame st"
  by (simp_all add: toggle_light_def Let_def)

lemma render_preserves [simp]:
  "windowShouldClose (render i st) = windowShouldClose st"
  "vertices (render i st) = vertices st"
  "indices (render i st) = indices st"
  "VAO (render i st) = VAO st"
  "VBO (render i st) = VBO st"
  "EBO (render i st) = EBO st"
  "texture (render i st) = texture st"
  "modelLoc (render i st) = modelLoc st"
  "viewLoc (render i st) = viewLoc st"
  "projLoc (render i st) = projLoc st"
  "lightOnLoc (render i st) = lightOnLoc st"
  "lightOn (render i st) = lightOn st"
  "camera (render i st) = camera st"
  "deltaTime (render i st) = deltaTime st"
  "lastFrame (render i st) = lastFrame st"
  by (simp_all add: render_def Let_def)

lemma poll_events_preserves [simp]:
  "gls (poll_events i st) = gls st"
  "vertices (poll_events i st) = vertices st"
  "indices (poll_events i st) = indices st"
  "VAO (poll_events i st) = VAO st"
  "VBO (poll_events i st) = VBO st"
  "EBO (poll_events i st) = EBO st"
  "texture (poll_events i st) = texture st"
  "modelLoc (poll_events i st) = modelLoc st"
  "viewLoc (poll_events i st) = viewLoc st"
  "projLoc (poll_events i st) = projLoc st"
  "lightOnLoc (poll_events i st) = lightOnLoc st"
  "lightOn (poll_events i st) = lightOn st"
  "camera (poll_events i st) = camera st"
  "deltaTime (poll_events i st) = deltaTime st"
  "lastFrame (poll_events i st) = lastFrame st"
  by (simp_all add: poll_events_def)

lemma loop_iteration_preserves [simp]:
  "vertices (loop_iteration i st) = vertices st"
  "indices (loop_iteration i st) = indices st"
  "VAO (loop_iteration i st) = VAO st"
  "VBO (loop_iteration i st) = VBO st"
  "EBO (loop_iteration i st) = EBO st"
  "texture (loop_iteration i st) = texture st"
  "modelLoc (loop_iteration i st) = modelLoc st"
  "viewLoc (loop_iteration i st) = viewLoc st"
  "projLoc (loop_iteration i st) = projLoc st"
  "lightOnLoc (loop_iteration i st) = lightOnLoc st"
  by (simp_all add: loop_iteration_def)

lemma lightOn_loop_iteration:
  "lightOn (loop_iteration i st) = (if key_pressed i GLFW_KEY_L then \<not> lightOn st else lightOn st)"
  by (simp add: loop_iteration_def toggle_light_def Let_def)

lemma windowShouldClose_loop_iteration:
  "windowShouldClose (loop_iteration i st) =
     (windowShouldClose st \<or> key_pressed i GLFW_KEY_ESCAPE \<or> close_requested i)"
  by (auto simp add: loop_iteration_def poll_events_def escape_key_def)

lemma gls_toggle_light:
  "gls (toggle_light i st) =
     (if key_pressed i GLFW_KEY_L
      then issue (Uniform1i (lightOnLoc st) (of_bool (\<not> lightOn st))) (gls st) else gls st)"
  by (simp add: toggle_light_def Let_def)

lemma calls_render:
  "calls (gls (render i st)) = calls (gls st) @
     [Clear, Enable_DEPTH_TEST,
      UniformMatrix4fv (viewLoc st) (GetViewMatrix (camera st)),
      UniformMatrix4fv (modelLoc st)
        (glm_rotate mat4_identity (time_at_render i * radians 50) (Vec3 0 1 0)),
      BindTexture (texture st), BindVertexArray (VAO st),
      DrawElements ((length (indices st) * sizeof_GLuint) div sizeof_GLuint)]"
  by (simp add: render_def Let_def)

lemma frame_calls_eq:
  "frame_calls i st =
     (if key_pressed i GLFW_KEY_L
      then [Uniform1i (lightOnLoc st) (of_bool (\<not> lightOn st))] else []) @
     [Clear, Enable_DEPTH_TEST,
      UniformMatrix4fv (viewLoc st) (GetViewMatrix (camera (loop_iteration i st))),
      UniformMatrix4fv (modelLoc st)
        (glm_rotate mat4_identity (time_at_render i * radians 50) (Vec3 0 1 0)),
      BindTexture (texture st), BindVertexArray (VAO st),
      DrawElements ((length (indices st) * sizeof_GLuint) div sizeof_GLuint)]"
  by (simp add: frame_calls_def loop_iteration_def calls_render gls_toggle_light)

lemma calls_loop_iteration:
  "calls (gls (loop_iteration i st)) = calls (gls st) @ frame_calls i st"
  by (simp add: frame_calls_eq loop_iteration_def calls_render gls_toggle_light)

lemma camera_move_key:
  "camera (move_key i k st) = (camera st)\<lparr>Position := Position (camera (move_key i k st))\<rparr>"
  using ProcessKeyboard_frame [of k "deltaTime st" "camera st"]
  by (simp add: move_key_def)


lemma only_Position_differs_trans:
  "only_Position_differs a b \<Longrightarrow> only_Position_differs b c \<Longrightarrow> only_Position_differs a c"
  unfolding only_Position_differs_def
  by (metis Camera.surjective Camera.update_convs(1))

lemma move_key_camera: "only_Position_differs (camera st) (camera (move_key i k st))"
  using ProcessKeyboard_frame [of k "deltaTime st" "camera st"]
  by (simp add: move_key_def only_Position_differs_def)

lemma camera_controls_camera: "only_Position_differs (camera st) (camera (camera_controls i st))"
  unfolding camera_controls_def Let_def
  by (intro only_Position_differs_trans [OF _ move_key_camera] move_key_camera)

lemma loop_iteration_camera: "only_Position_differs (camera st) (camera (loop_iteration i st))"
  using camera_controls_camera [of "escape_key i (frame_time i st)" i]
  by (simp add: loop_iteration_def)

lemma only_Position_differs_fields:
  assumes "only_Position_differs c c'"
  shows "Front c' = Front c" "Up c' = Up c" "Right c' = Right c" "WorldUp c' = WorldUp c"
    "Yaw c' = Yaw c" "Pitch c' = Pitch c" "MovementSpeed c' = MovementSpeed c"
    "MouseSensitivity c' = MouseSensitivity c" "Zoom c' = Zoom c"
  using assms unfolding only_Position_differs_def
  by (metis Camera.select_convs Camera.surjective Camera.update_convs(1))+




section \<open>Start-up, the loop and the uniforms\<close>

lemma fst_upload_geometry:
  "fst (upload_geometry g) = (next_name g, next_name g + 1, next_name g + 2)"
  by (simp add: upload_geometry_def glGenVertexArrays_def glGenBuffers_def issue_def Let_def split_def)

lemma calls_upload_geometry:
  "calls (snd (upload_geometry g)) = calls g @
     [GenVertexArrays (next_name g), GenBuffers (next_name g + 1), GenBuffers (next_name g + 2),
      BindVertexArray (next_name g),
      BindBuffer GL_ARRAY_BUFFER (next_name g + 1),
      BufferData GL_ARRAY_BUFFER (FloatData vertices_initializer),
      BindBuffer GL_ELEMENT_ARRAY_BUFFER (next_name g + 2),
      BufferData GL_ELEMENT_ARRAY_BUFFER (UIntData indices_initializer),
      VertexAttribPointer 0 3 (8 * sizeof_float) 0, EnableVertexAttribArray 0,
      VertexAttribPointer 1 3 (8 * sizeof_float) (3 * sizeof_float), EnableVertexAttribArray 1,
      VertexAttribPointer 2 2 (8 * sizeof_float) (6 * sizeof_float), EnableVertexAttribArray 2]"
  by (simp add: upload_geometry_def glGenVertexArrays_def glGenBuffers_def Let_def split_def
      issue_def bound_buffer_def)

lemma buffer_store_upload_geometry:
  "buffer_store (snd (upload_geometry g)) =
     (buffer_store g)(next_name g + 1 := Some (FloatData vertices_initializer),
                      next_name g + 2 := Some (UIntData indices_initializer))"
  by (simp add: upload_geometry_def glGenVertexArrays_def glGenBuffers_def Let_def split_def
      issue_def bound_buffer_def)

lemma uniforms_upload_geometry: "uniforms (snd (upload_geometry g)) = uniforms g"
  by (simp add: upload_geometry_def glGenVertexArrays_def glGenBuffers_def Let_def split_def
      issue_def bound_buffer_def)

lemma fst_load_texture:
  "fst (load_texture env err g) =
     err @ (if stbi_load_result env = None then [''Failed to load texture''] else [])"
  by (simp add: load_texture_def glGenTextures_def Let_def split_def split: option.splits)

lemma buffer_store_load_texture:
  "buffer_store (snd (snd (load_texture env err g))) = buffer_store g"
  by (simp add: load_texture_def glGenTextures_def Let_def split_def issue_def
      split: option.splits)

lemma uniforms_load_texture:
  "uniforms (snd (snd (load_texture env err g))) = uniforms g"
  by (simp add: load_texture_def glGenTextures_def Let_def split_def issue_def
      split: option.splits)

lemma writes_load_texture:
  "filter writes_buffer (calls (snd (snd (load_texture env err g)))) =
     filter writes_buffer (calls g)"
  by (simp add: load_texture_def glGenTextures_def Let_def split_def split: option.splits)

lemma fst_createShaderProgram:
  "fst (createShaderProgram env err) = err @
     (if vertex_compile_status env then []
      else [''ERROR::SHADER::VERTEX::COMPILATION_FAILED'' @ [CHR 0x0A] @ vertex_infoLog env]) @
     (if fragment_compile_status env then []
      else [''ERROR::SHADER::FRAGMENT::COMPILATION_FAILED'' @ [CHR 0x0A] @ fragment_infoLog env]) @
     (if link_status env then []
      else [''ERROR::SHADER::PROGRAM::LINKING_FAILED'' @ [CHR 0x0A] @ link_infoLog env])"
  by (simp add: createShaderProgram_def Let_def)

lemma snd_createShaderProgram: "snd (createShaderProgram env err) = link_status env"
  by (simp add: createShaderProgram_def Let_def)

lemma fst_main_setup:
  "fst (main_setup env err g) = err @
     (if vertex_compile_status env then []
      else [''ERROR::SHADER::VERTEX::COMPILATION_FAILED'' @ [CHR 0x0A] @ vertex_infoLog env]) @
     (if fragment_compile_status env then []
      else [''ERROR::SHADER::FRAGMENT::COMPILATION_FAILED'' @ [CHR 0x0A] @ fragment_infoLog env]) @
     (if link_status env then []
      else [''ERROR::SHADER::PROGRAM::LINKING_FAILED'' @ [CHR 0x0A] @ link_infoLog env]) @
     (if stbi_load_result env = None then [''Failed to load texture''] else [])"
  by (simp add: main_setup_def Let_def split_def fst_load_texture fst_createShaderProgram)

lemma main_setup_fields:
  "windowShouldClose (snd (main_setup env err g)) = False"
  "glfw_terminated (snd (main_setup env err g)) = False"
  "lightOn (snd (main_setup env err g)) = True"
  "vertices (snd (main_setup env err g)) = vertices_initializer"
  "indices (snd (main_setup env err g)) = indices_initializer"
  "VBO (snd (main_setup env err g)) = next_name g + 1"
  "EBO (snd (main_setup env err g)) = next_name g + 2"
  "modelLoc (snd (main_setup env err g)) = (if link_status env then Some ''model'' else None)"
  "viewLoc (snd (main_setup env err g)) = (if link_status env then Some ''view'' else None)"
  "projLoc (snd (main_setup env err g)) = (if link_status env then Some ''projection'' else None)"
  "lightOnLoc (snd (main_setup env err g)) = (if link_status env then Some ''lightOn'' else None)"
  by (simp_all add: main_setup_def Let_def split_def fst_upload_geometry
      glGetUniformLocation_def snd_createShaderProgram)

lemma writes_main_setup:
  "filter writes_buffer (calls (gls (snd (main_setup env err g)))) =
     filter writes_buffer (calls g) @
     [BufferData GL_ARRAY_BUFFER (FloatData vertices_initializer),
      BufferData GL_ELEMENT_ARRAY_BUFFER (UIntData indices_initializer)]"
  by (simp add: main_setup_def Let_def split_def glGetUniformLocation_def
      writes_load_texture calls_upload_geometry)

lemma buffer_store_main_setup:
  "buffer_store (gls (snd (main_setup env err g))) =
     (buffer_store g)(next_name g + 1 := Some (FloatData vertices_initializer),
                      next_name g + 2 := Some (UIntData indices_initializer))"
  by (simp add: main_setup_def Let_def split_def glGetUniformLocation_def
      buffer_store_issue buffer_store_load_texture buffer_store_upload_geometry)

lemma uniform_lightOn_main_setup:
  "link_status env \<Longrightarrow>
   uniforms (gls (snd (main_setup env err g))) ''lightOn'' = Some (UInt 1)"
  by (simp add: main_setup_def Let_def split_def glGetUniformLocation_def
      snd_createShaderProgram issue_def)

lemma run_frames_preserves [simp]:
  "vertices (run_frames frames st) = vertices st"
  "indices (run_frames frames st) = indices st"
  "VAO (run_frames frames st) = VAO st"
  "VBO (run_frames frames st) = VBO st"
  "EBO (run_frames frames st) = EBO st"
  "texture (run_frames frames st) = texture st"
  "modelLoc (run_frames frames st) = modelLoc st"
  "viewLoc (run_frames frames st) = viewLoc st"
  "projLoc (run_frames frames st) = projLoc st"
  "lightOnLoc (run_frames frames st) = lightOnLoc st"
  by (induction frames arbitrary: st) simp_all

lemma glfw_terminated_loop_iteration [simp]:
  "glfw_terminated (loop_iteration i st) = glfw_terminated st"
  by (simp add: loop_iteration_def poll_events_def render_def toggle_light_def
      camera_controls_def move_key_def escape_key_def frame_time_def Let_def)

lemma glfw_terminated_run_frames:
  "glfw_terminated (run_frames frames st) = glfw_terminated st"
  by (induction frames arbitrary: st) simp_all

lemma run_frames_append: "run_frames (xs @ ys) st = run_frames ys (run_frames xs st)"
  by (induction xs arbitrary: st) simp_all

lemma buffer_store_loop_iteration:
  "buffer_store (gls (loop_iteration i st)) = buffer_store (gls st)"
  by (simp add: loop_iteration_def render_def gls_toggle_light Let_def buffer_store_issue)

lemma writes_frame_calls: "filter writes_buffer (frame_calls i st) = []"
  by (simp add: frame_calls_eq)

lemma draws_frame_calls:
  "filter is_draw (frame_calls i st) =
     [DrawElements ((length (indices st) * sizeof_GLuint) div sizeof_GLuint)]"
  by (simp add: frame_calls_eq)

lemma buffer_store_run_frames:
  "buffer_store (gls (run_frames frames st)) = buffer_store (gls st)"
  by (induction frames arbitrary: st) (simp_all add: buffer_store_loop_iteration)

lemma writes_run_frames:
  "filter writes_buffer (calls (gls (run_frames frames st))) =
     filter writes_buffer (calls (gls st))"
  by (induction frames arbitrary: st) (simp_all add: calls_loop_iteration writes_frame_calls)

lemma calls_after_init:
  "initGLFWandGLAD env = (err, Inr g) \<Longrightarrow>
   err = [] \<and> g = issue (Viewport 0 0 (fst (framebuffer_size env)) (snd (framebuffer_size env))) gl_initial"
  by (auto simp add: initGLFWandGLAD_def split: if_splits)

lemma after_init:
  assumes "initGLFWandGLAD env = (err, Inr g)"
  shows "filter writes_buffer (calls g) = []" "next_name g = 1" "buffer_store g = (\<lambda>_. None)"
  using calls_after_init [OF assms] by (simp_all add: issue_def gl_initial_def)

lemma run_loop_closed: "windowShouldClose st \<Longrightarrow> run_loop frames st = Some st"
  by (cases frames) simp_all

lemma run_loop_quiet:
  "\<not> windowShouldClose st \<Longrightarrow>
   list_all (\<lambda>j. \<not> key_pressed j GLFW_KEY_ESCAPE \<and> \<not> close_requested j) before \<Longrightarrow>
   run_loop (before @ rest) st = run_loop rest (run_frames before st) \<and>
   \<not> windowShouldClose (run_frames before st)"
proof (induction before arbitrary: st)
  case Nil
  then show ?case by simp
next
  case (Cons j js)
  from Cons.prems have "\<not> windowShouldClose (loop_iteration j st)"
    by (simp add: windowShouldClose_loop_iteration)
  with Cons show ?case by simp
qed

lemma calls_cleanup:
  "calls (gls (cleanup st)) = calls (gls st) @
     [DeleteVertexArrays (VAO st), DeleteBuffers (VBO st), DeleteBuffers (EBO st), DeleteProgram]"
  by (simp add: cleanup_def Let_def)

lemma buffer_store_cleanup:
  "buffer_store (gls (cleanup st)) =
     (buffer_store (gls st))(VBO st := None, EBO st := None)"
  by (simp add: cleanup_def Let_def issue_def)

lemma main_started:
  "initGLFWandGLAD env = (err, Inr g) \<Longrightarrow>
   main env frames =
     (fst (main_setup env err g),
      (case run_loop frames (snd (main_setup env err g)) of
         None \<Rightarrow> Running | Some st \<Rightarrow> Returned 0 (glfwTerminate (cleanup st))))"
  by (simp add: main_def split_def Let_def split: option.splits)

lemma glm_rotate_about_y: "glm_rotate mat4_identity a (Vec3 0 1 0) = rotation_about_y a"
  by (simp add: mat4_identity_def rotation_about_y_def vec3_normalize_def inversesqrt_def Let_def)

lemma uniforms_render:
  "viewLoc st = Some ''view'' \<Longrightarrow> modelLoc st = Some ''model'' \<Longrightarrow>
   uniforms (gls (render i st)) =
     (uniforms (gls st))
       (''view'' := Some (UMat4 (GetViewMatrix (camera st))),
        ''model'' := Some (UMat4 (rotation_about_y (time_at_render i * radians 50))))"
  by (simp add: render_def Let_def issue_def glm_rotate_about_y)

lemma uniforms_toggle_light:
  "lightOnLoc st = Some ''lightOn'' \<Longrightarrow>
   uniforms (gls (toggle_light i st)) =
     (if key_pressed i GLFW_KEY_L
      then (uniforms (gls st))(''lightOn'' := Some (UInt (of_bool (\<not> lightOn st))))
      else uniforms (gls st))"
  by (simp add: gls_toggle_light issue_def)

lemma uniforms_loop_iteration:
  assumes "lightOnLoc st = Some ''lightOn''" "viewLoc st = Some ''view''"
    "modelLoc st = Some ''model''"
  shows "uniforms (gls (loop_iteration i st)) ''lightOn'' =
           (if key_pressed i GLFW_KEY_L then Some (UInt (of_bool (\<not> lightOn st)))
            else uniforms (gls st) ''lightOn'')"
    and "uniforms (gls (loop_iteration i st)) ''model'' =
           Some (UMat4 (rotation_about_y (time_at_render i * radians 50)))"
  using assms by (simp_all add: loop_iteration_def uniforms_render uniforms_toggle_light)

lemma light_uniform_run_frames:
  "lightOnLoc st = Some ''lightOn'' \<Longrightarrow> viewLoc st = Some ''view'' \<Longrightarrow>
   modelLoc st = Some ''model'' \<Longrightarrow>
   uniforms (gls st) ''lightOn'' = Some (UInt (of_bool (lightOn st))) \<Longrightarrow>
   uniforms (gls (run_frames frames st)) ''lightOn'' =
     Some (UInt (of_bool (lightOn (run_frames frames st))))"
proof (induction frames arbitrary: st)
  case Nil
  then show ?case by simp
next
  case (Cons i rest)
  have "uniforms (gls (loop_iteration i st)) ''lightOn'' =
          Some (UInt (of_bool (lightOn (loop_iteration i st))))"
    using Cons.prems by (simp add: uniforms_loop_iteration lightOn_loop_iteration)
  with Cons.prems show ?case by (simp add: Cons.IH)
qed

section \<open>Rounding and the binary32 operations at simple values\<close>

lemma round_to_even_of_int: "round_to_even (of_int n) = n"
  by (simp add: round_to_even_def)

lemma round32_zero: "round32 0 = Finite 0"
  by (simp add: round32_def)

lemma pow2_split: "m \<le> k \<Longrightarrow> (2::real) ^ k = 2 ^ (k - m) * 2 ^ m"
  by (simp add: power_add [symmetric])


lemma round32_pow2_general:
  assumes "k < m" "m = (128::nat)" "p = (23::nat)"
  shows "round32 (2 ^ k) = Finite (2 ^ k)"
proof -
  have e: "\<lfloor>log 2 \<bar>2 ^ k :: real\<bar>\<rfloor> = int k" by simp
  have sp: "(2 ^ k :: real) / spacing32 (int k) = of_int (2 ^ p)"
  proof (cases "p \<le> k")
    case True
    then show ?thesis
      using pow2_split [OF True] assms(3) by (simp add: spacing32_def nat_diff_distrib')
  next
    case False
    then have "k + (p - k) = p" by simp
    then have "(2::real) ^ p = 2 ^ k * 2 ^ (p - k)"
      by (metis power_add)
    with False show ?thesis
      using assms(3) by (simp add: spacing32_def nat_diff_distrib')
  qed
  have undo: "of_int (2 ^ p) * spacing32 (int k) = (2 ^ k :: real)"
    using sp by (simp add: spacing32_def field_simps split: if_splits)
  have small: "\<not> ((2::real) ^ m \<le> \<bar>2 ^ k\<bar>)"
    using assms(1) by (simp add: power_strict_increasing_iff)
  have mx: "max (int k) (- 126) = int k" by simp
  have "round32 (2 ^ k) =
      (let v = of_int (round_to_even (2 ^ k / spacing32 (int k))) * spacing32 (int k)
       in if 2 ^ 128 \<le> \<bar>v\<bar> then (if 0 < (2 ^ k :: real) then PlusInfinity else MinusInfinity)
          else Finite v)"
    unfolding round32_def Let_def e mx by simp
  also have "\<dots> = Finite (2 ^ k)"
    unfolding Let_def sp round_to_even_of_int undo using small assms(2) by simp
  finally show ?thesis .
qed

lemma round32_pow2: "k < 128 \<Longrightarrow> round32 (2 ^ k) = Finite (2 ^ k)"
  by (rule round32_pow2_general [where m = 128 and p = 23]) simp_all

lemma round32_one: "round32 1 = Finite 1"
  using round32_pow2 [of 0] by simp



lemma f32_exact [simp]:
  "f32_mul (Finite 0) (Finite b) = Finite 0"
  "f32_mul (Finite a) (Finite 0) = Finite 0"
  "f32_mul (Finite 1) (Finite 1) = Finite 1"
  "f32_add (Finite 0) (Finite 0) = Finite 0"
  "f32_add (Finite 1) (Finite 0) = Finite 1"
  "f32_add (Finite 0) (Finite 1) = Finite 1"
  "f32_sub (Finite 0) (Finite 0) = Finite 0"
  "f32_sub (Finite 1) (Finite 0) = Finite 1"
  "f32_sqrt (Finite 0) = Finite 0"
  "f32_sqrt (Finite 1) = Finite 1"
  "f32_div (Finite 1) (Finite 1) = Finite 1"
  "f32_cos (Finite 0) = Finite 1"
  "f32_sin (Finite 0) = Finite 0"
  by (simp_all add: f32_mul_def f32_add_def f32_sub_def f32_neg_def f32_sqrt_def f32_div_def
      f32_cos_def f32_sin_def round32_zero round32_one)










section \<open>Claims about the camera\<close>





text \<open>
  C9. For every direction key and every \<open>dt\<close>, \<open>ProcessKeyboard\<close> leaves \<open>Yaw\<close>,
  \<open>Pitch\<close>, \<open>Front\<close>, \<open>Right\<close>, \<open>Up\<close>, \<open>WorldUp\<close>, \<open>MovementSpeed\<close>,
  \<open>MouseSensitivity\<close> and \<open>Zoom\<close> as they were: the result is the camera it was given
  with another \<open>Position\<close>. A whole pass of the main loop does no more to the camera,
  so the basis vectors change only where \<open>updateCameraVectors\<close> runs, which is in the
  constructor.
\<close>

theorem ProcessKeyboard_changes_only_Position:
  "Front (ProcessKeyboard direction dt c) = Front c \<and>
   Up (ProcessKeyboard direction dt c) = Up c \<and>
   Right (ProcessKeyboard direction dt c) = Right c \<and>
   WorldUp (ProcessKeyboard direction dt c) = WorldUp c \<and>
   Yaw (ProcessKeyboard direction dt c) = Yaw c \<and>
   Pitch (ProcessKeyboard direction dt c) = Pitch c \<and>
   MovementSpeed (ProcessKeyboard direction dt c) = MovementSpeed c \<and>
   MouseSensitivity (ProcessKeyboard direction dt c) = MouseSensitivity c \<and>
   Zoom (ProcessKeyboard direction dt c) = Zoom c \<and>
   ProcessKeyboard direction dt c = c\<lparr>Position := Position (ProcessKeyboard direction dt c)\<rparr> \<and>
   camera (loop_iteration i st) =
     (camera st)\<lparr>Position := Position (camera (loop_iteration i st))\<rparr>"
proof -
  have pk: "only_Position_differs c (ProcessKeyboard direction dt c)"
    unfolding only_Position_differs_def by (rule ProcessKeyboard_frame)
  have loop: "camera (loop_iteration i st) =
     (camera st)\<lparr>Position := Position (camera (loop_iteration i st))\<rparr>"
    using loop_iteration_camera [of st i] by (simp only: only_Position_differs_def)
  show ?thesis
    using only_Position_differs_fields [OF pk] ProcessKeyboard_frame [of direction dt c] loop
    by simp
qed

section \<open>Claims about the fragment shader\<close>

text \<open>
  C8. For every fragment: with \<open>lightOn\<close> true the output colour is the texture sample at
  the interpolated texture coordinate multiplied componentwise by
  \<open>vec4(ourColor, 1.0)\<close>; with \<open>lightOn\<close> false it is \<open>vec4(ourColor, 1.0)\<close> and the
  texture does not contribute.
\<close>

theorem fragment_colour:
  "fragment_main texture1 True ourColor TexCoord =
     vec4_mul (texture1 TexCoord) (vec4_of_vec3 ourColor 1) \<and>
   fragment_main texture1 False ourColor TexCoord = vec4_of_vec3 ourColor 1 \<and>
   fragment_main texture1 True (Vec3 r g b) TexCoord =
     (case texture1 TexCoord of Vec4 tr tg tb ta \<Rightarrow> Vec4 (tr * r) (tg * g) (tb * b) ta) \<and>
   fragment_main texture1 False (Vec3 r g b) TexCoord = Vec4 r g b 1"
  by (simp add: fragment_main_def split: vec4.split)

section \<open>Claims about start-up\<close>

text \<open>
  C2. Each failure of context creation (GLFW initialisation, window creation, GLAD loading),
  of shader compilation or linking, and of texture loading writes its message to standard
  error. The three context-creation failures, and only they, end the process at once with
  \<open>EXIT_FAILURE\<close>; after a shader or texture failure the process does not exit: the
  messages are on standard error and \<open>main\<close> goes on into the loop.
\<close>

theorem failures_are_logged:
  "(\<not> glfwInit_ok env \<longrightarrow>
      main env frames = ([''Failed to initialize GLFW''], Exited EXIT_FAILURE)) \<and>
   (glfwInit_ok env \<and> \<not> glfwCreateWindow_ok env \<longrightarrow>
      main env frames = ([''Failed to create GLFW window''], Exited EXIT_FAILURE)) \<and>
   (glfwInit_ok env \<and> glfwCreateWindow_ok env \<and> \<not> gladLoadGLLoader_ok env \<longrightarrow>
      main env frames = ([''Failed to initialize GLAD''], Exited EXIT_FAILURE)) \<and>
   (glfwInit_ok env \<and> glfwCreateWindow_ok env \<and> gladLoadGLLoader_ok env \<longrightarrow>
      exit_code (snd (main env frames)) = None \<and>
      snd (main env []) = Running \<and>
      fst (main env frames) =
        (if vertex_compile_status env then []
         else [''ERROR::SHADER::VERTEX::COMPILATION_FAILED'' @ [CHR 0x0A] @ vertex_infoLog env]) @
        (if fragment_compile_status env then []
         else [''ERROR::SHADER::FRAGMENT::COMPILATION_FAILED'' @ [CHR 0x0A] @ fragment_infoLog env]) @
        (if link_status env then []
         else [''ERROR::SHADER::PROGRAM::LINKING_FAILED'' @ [CHR 0x0A] @ link_infoLog env]) @
        (if stbi_load_result env = None then [''Failed to load texture''] else []))"
proof -
  have ok: "exit_code (snd (main env frames)) = None \<and>
      snd (main env []) = Running \<and>
      fst (main env frames) =
        (if vertex_compile_status env then []
         else [''ERROR::SHADER::VERTEX::COMPILATION_FAILED'' @ [CHR 0x0A] @ vertex_infoLog env]) @
        (if fragment_compile_status env then []
         else [''ERROR::SHADER::FRAGMENT::COMPILATION_FAILED'' @ [CHR 0x0A] @ fragment_infoLog env]) @
        (if link_status env then []
         else [''ERROR::SHADER::PROGRAM::LINKING_FAILED'' @ [CHR 0x0A] @ link_infoLog env]) @
        (if stbi_load_result env = None then [''Failed to load texture''] else [])"
    if up: "glfwInit_ok env" "glfwCreateWindow_ok env" "gladLoadGLLoader_ok env"
  proof -
    obtain g where init: "initGLFWandGLAD env = ([], Inr g)"
      using up by (simp add: initGLFWandGLAD_def)
    show ?thesis
      by (simp add: main_started [OF init] fst_main_setup main_setup_fields
          split: option.splits)
  qed
  have bad: "main env frames = ([''Failed to initialize GLFW''], Exited EXIT_FAILURE)"
    if "\<not> glfwInit_ok env"
    using that by (simp add: main_def initGLFWandGLAD_def)
  have bad2: "main env frames = ([''Failed to create GLFW window''], Exited EXIT_FAILURE)"
    if "glfwInit_ok env" "\<not> glfwCreateWindow_ok env"
    using that by (simp add: main_def initGLFWandGLAD_def)
  have bad3: "main env frames = ([''Failed to initialize GLAD''], Exited EXIT_FAILURE)"
    if "glfwInit_ok env" "glfwCreateWindow_ok env" "\<not> gladLoadGLLoader_ok env"
    using that by (simp add: main_def initGLFWandGLAD_def)
  show ?thesis using ok bad bad2 bad3 by blast
qed

theorem failures_are_logged_witness:
  "main (sample_environment\<lparr>glfwInit_ok := False\<rparr>) [] =
     ([''Failed to initialize GLFW''], Exited EXIT_FAILURE) \<and>
   main (sample_environment\<lparr>glfwCreateWindow_ok := False\<rparr>) [] =
     ([''Failed to create GLFW window''], Exited EXIT_FAILURE) \<and>
   main (sample_environment\<lparr>gladLoadGLLoader_ok := False\<rparr>) [] =
     ([''Failed to initialize GLAD''], Exited EXIT_FAILURE) \<and>
   main (sample_environment\<lparr>vertex_compile_status := False, vertex_infoLog := ''syntax error'',
                             stbi_load_result := None\<rparr>) [] =
     ([''ERROR::SHADER::VERTEX::COMPILATION_FAILED'' @ [CHR 0x0A] @ ''syntax error'',
       ''Failed to load texture''], Running)"
  using failures_are_logged [of "sample_environment\<lparr>glfwInit_ok := False\<rparr>" "[]"]
    failures_are_logged [of "sample_environment\<lparr>glfwCreateWindow_ok := False\<rparr>" "[]"]
    failures_are_logged [of "sample_environment\<lparr>gladLoadGLLoader_ok := False\<rparr>" "[]"]
    failures_are_logged [of "sample_environment\<lparr>vertex_compile_status := False,
      vertex_infoLog := ''syntax error'', stbi_load_result := None\<rparr>" "[]"]
  by (simp add: sample_environment_def prod_eq_iff)

section \<open>Claims about the geometry\<close>

text \<open>
  C5. The vertex array holds 160 floats, which is 20 vertices of 8 floats; the index array
  holds 78 entries, each of them less than 20; and the draw call of every pass of the loop
  draws \<open>sizeof(indices) / sizeof(indices[0])\<close> = 78 indices.
\<close>

theorem geometry_counts:
  "length vertices_initializer = 160 \<and>
   floats_per_vertex = 8 \<and>
   length vertices_initializer = 20 * floats_per_vertex \<and>
   length indices_initializer = 78 \<and>
   list_all (\<lambda>k. unat k < 20) indices_initializer \<and>
   filter is_draw (frame_calls i (run_frames frames (snd (main_setup env err g)))) =
     [DrawElements 78]"
proof -
  have len: "length indices_initializer = 78"
    by (simp add: indices_initializer_def)
  have "list_all (\<lambda>k. unat k < 20) indices_initializer"
    by (simp add: indices_initializer_def)
  moreover have "length vertices_initializer = 160"
    by (simp add: vertices_initializer_def)
  moreover have "floats_per_vertex = 8"
    by (simp add: floats_per_vertex_def sizeof_float_def)
  moreover have "filter is_draw (frame_calls i (run_frames frames (snd (main_setup env err g)))) =
     [DrawElements 78]"
    by (simp add: draws_frame_calls main_setup_fields len sizeof_GLuint_def)
  ultimately show ?thesis using len by simp
qed

text \<open>
  C6. The vertex buffer and the index buffer are each filled once, before the loop: when
  \<open>main\<close> enters the loop, the calls that write to a buffer object have been exactly the two
  \<open>glBufferData\<close> calls, and the two buffers hold the vertex and the index array. No pass
  of the loop makes a call that writes to a buffer object, and none changes the data stores
  of the buffers or the two arrays; so neither does any number of passes.
\<close>

theorem geometry_uploaded_once:
  "(initGLFWandGLAD env = (err, Inr g) \<longrightarrow>
      filter writes_buffer (calls (gls (snd (main_setup env err g)))) =
        [BufferData GL_ARRAY_BUFFER (FloatData vertices_initializer),
         BufferData GL_ELEMENT_ARRAY_BUFFER (UIntData indices_initializer)] \<and>
      buffer_store (gls (snd (main_setup env err g))) (VBO (snd (main_setup env err g))) =
        Some (FloatData vertices_initializer) \<and>
      buffer_store (gls (snd (main_setup env err g))) (EBO (snd (main_setup env err g))) =
        Some (UIntData indices_initializer)) \<and>
   filter writes_buffer (frame_calls i st) = [] \<and>
   buffer_store (gls (loop_iteration i st)) = buffer_store (gls st) \<and>
   vertices (loop_iteration i st) = vertices st \<and>
   indices (loop_iteration i st) = indices st \<and>
   filter writes_buffer (calls (gls (run_frames frames st))) =
     filter writes_buffer (calls (gls st)) \<and>
   buffer_store (gls (run_frames frames st)) = buffer_store (gls st) \<and>
   vertices (run_frames frames st) = vertices st \<and>
   indices (run_frames frames st) = indices st"
proof -
  have "filter writes_buffer (calls (gls (snd (main_setup env err g)))) =
        [BufferData GL_ARRAY_BUFFER (FloatData vertices_initializer),
         BufferData GL_ELEMENT_ARRAY_BUFFER (UIntData indices_initializer)] \<and>
      buffer_store (gls (snd (main_setup env err g))) (VBO (snd (main_setup env err g))) =
        Some (FloatData vertices_initializer) \<and>
      buffer_store (gls (snd (main_setup env err g))) (EBO (snd (main_setup env err g))) =
        Some (UIntData indices_initializer)"
    if "initGLFWandGLAD env = (err, Inr g)"
    using after_init [OF that]
    by (simp add: writes_main_setup buffer_store_main_setup main_setup_fields)
  then show ?thesis
    by (simp add: writes_frame_calls buffer_store_loop_iteration writes_run_frames
        buffer_store_run_frames)
qed

theorem geometry_uploaded_once_witness:
  "initGLFWandGLAD sample_environment = ([], Inr (issue (Viewport 0 0 800 600) gl_initial)) \<and>
   filter writes_buffer (calls (gls sample_start)) =
     [BufferData GL_ARRAY_BUFFER (FloatData vertices_initializer),
      BufferData GL_ELEMENT_ARRAY_BUFFER (UIntData indices_initializer)] \<and>
   buffer_store (gls sample_start) (VBO sample_start) = Some (FloatData vertices_initializer) \<and>
   buffer_store (gls sample_start) (EBO sample_start) = Some (UIntData indices_initializer)"
  using geometry_uploaded_once [of sample_environment "[]"
      "issue (Viewport 0 0 800 600) gl_initial"]
  by (simp add: sample_start_def initGLFWandGLAD_def sample_environment_def)

section \<open>Claims about the loop\<close>

text \<open>
  C3. \<open>lightOn\<close> is true when the loop is entered. In every pass of the loop, if L is
  reported pressed the flag is inverted and \<open>glUniform1i\<close> is called once, with the
  location of \<open>lightOn\<close> and the new value; if L is not reported pressed the flag is unchanged
  and \<open>glUniform1i\<close> is not called. When the program linked, the uniform \<open>lightOn\<close> holds
  the value of the flag after any number of passes.
\<close>

theorem light_toggles_on_L:
  "lightOn (snd (main_setup env err g)) \<and>
   (key_pressed i GLFW_KEY_L \<longrightarrow>
      lightOn (loop_iteration i st) = (\<not> lightOn st) \<and>
      filter is_Uniform1i (frame_calls i st) =
        [Uniform1i (lightOnLoc st) (of_bool (\<not> lightOn st))]) \<and>
   (\<not> key_pressed i GLFW_KEY_L \<longrightarrow>
      lightOn (loop_iteration i st) = lightOn st \<and>
      filter is_Uniform1i (frame_calls i st) = []) \<and>
   (link_status env \<longrightarrow>
      uniforms (gls (run_frames frames (snd (main_setup env err g)))) ''lightOn'' =
        Some (UInt (of_bool (lightOn (run_frames frames (snd (main_setup env err g)))))))"
proof -
  have "uniforms (gls (run_frames frames (snd (main_setup env err g)))) ''lightOn'' =
        Some (UInt (of_bool (lightOn (run_frames frames (snd (main_setup env err g))))))"
    if "link_status env"
    using that
    by (intro light_uniform_run_frames) (simp_all add: main_setup_fields uniform_lightOn_main_setup)
  then show ?thesis
    by (simp add: main_setup_fields lightOn_loop_iteration frame_calls_eq)
qed

theorem light_toggles_on_L_witness:
  "key_pressed (sample_frame 0 [GLFW_KEY_L]) GLFW_KEY_L \<and>
   lightOn (loop_iteration (sample_frame 0 [GLFW_KEY_L]) sample_start) = False \<and>
   \<not> key_pressed (sample_frame 0 [GLFW_KEY_W]) GLFW_KEY_L \<and>
   lightOn (loop_iteration (sample_frame 0 [GLFW_KEY_W]) sample_start) = True \<and>
   link_status sample_environment \<and>
   uniforms (gls (run_frames [sample_frame 0 [GLFW_KEY_L]] sample_start)) ''lightOn'' =
     Some (UInt 0)"
  using light_toggles_on_L [of sample_environment "[]" "issue (Viewport 0 0 800 600) gl_initial"
      "sample_frame 0 [GLFW_KEY_L]" sample_start "[sample_frame 0 [GLFW_KEY_L]]"]
    light_toggles_on_L [of sample_environment "[]" "issue (Viewport 0 0 800 600) gl_initial"
      "sample_frame 0 [GLFW_KEY_W]" sample_start "[]"]
  by (simp add: sample_frame_def sample_environment_def sample_start_def key_defs)

text \<open>
  C7. After a pass the should-close flag is set exactly when it was set before, or Escape
  was reported pressed in the pass, or the window system asked to close the window. So a
  pass in which Escape is reported pressed makes the next guard check fail: the loop ends
  after that pass, the cleanup runs (it deletes the vertex array, the two buffers and the
  program, in this order, and leaves the two buffers without data store), \<open>glfwTerminate\<close>
  is called and \<open>main\<close> returns 0. As long as neither Escape is reported pressed nor the
  window system asks to close the window, the loop keeps running, whichever other keys are
  reported pressed.
\<close>

theorem escape_ends_the_loop:
  "windowShouldClose (loop_iteration i st) =
     (windowShouldClose st \<or> key_pressed i GLFW_KEY_ESCAPE \<or> close_requested i) \<and>
   (key_pressed i GLFW_KEY_ESCAPE \<and> \<not> windowShouldClose st \<longrightarrow>
      run_loop (i # rest) st = Some (loop_iteration i st)) \<and>
   (initGLFWandGLAD env = (err, Inr g) \<and>
    list_all (\<lambda>j. \<not> key_pressed j GLFW_KEY_ESCAPE \<and> \<not> close_requested j) before \<and>
    key_pressed i GLFW_KEY_ESCAPE \<longrightarrow>
      snd (main env (before @ i # rest)) =
        Returned 0
          (glfwTerminate (cleanup (run_frames (before @ [i]) (snd (main_setup env err g)))))) \<and>
   calls (gls (cleanup st)) = calls (gls st) @
     [DeleteVertexArrays (VAO st), DeleteBuffers (VBO st), DeleteBuffers (EBO st), DeleteProgram] \<and>
   buffer_store (gls (cleanup st)) (VBO st) = None \<and>
   buffer_store (gls (cleanup st)) (EBO st) = None \<and>
   glfw_terminated (glfwTerminate st) \<and>
   gls (glfwTerminate st) = gls st \<and>
   \<not> glfw_terminated (run_frames frames (snd (main_setup env err g))) \<and>
   \<not> glfw_terminated (cleanup (run_frames frames (snd (main_setup env err g)))) \<and>
   (\<not> windowShouldClose st \<and>
    list_all (\<lambda>j. \<not> key_pressed j GLFW_KEY_ESCAPE \<and> \<not> close_requested j) frames \<longrightarrow>
      run_loop frames st = None) \<and>
   (initGLFWandGLAD env = (err, Inr g) \<and>
    list_all (\<lambda>j. \<not> key_pressed j GLFW_KEY_ESCAPE \<and> \<not> close_requested j) frames \<longrightarrow>
      snd (main env frames) = Running)"
proof -
  have step: "run_loop (i # rest) st = Some (loop_iteration i st)"
    if "key_pressed i GLFW_KEY_ESCAPE" "\<not> windowShouldClose st" for st
    using that by (simp add: run_loop_closed windowShouldClose_loop_iteration)
  have quiet: "run_loop frames st = None"
    if "\<not> windowShouldClose st"
      "list_all (\<lambda>j. \<not> key_pressed j GLFW_KEY_ESCAPE \<and> \<not> close_requested j) frames" for st
    using run_loop_quiet [OF that, of "[]"] by simp
  have returns: "snd (main env (before @ i # rest)) =
        Returned 0
          (glfwTerminate (cleanup (run_frames (before @ [i]) (snd (main_setup env err g)))))"
    if init: "initGLFWandGLAD env = (err, Inr g)"
      and before: "list_all (\<lambda>j. \<not> key_pressed j GLFW_KEY_ESCAPE \<and> \<not> close_requested j) before"
      and esc: "key_pressed i GLFW_KEY_ESCAPE"
  proof -
    let ?st = "snd (main_setup env err g)"
    have open0: "\<not> windowShouldClose ?st" by (simp add: main_setup_fields)
    from run_loop_quiet [OF open0 before, of "i # rest"]
    have "run_loop (before @ i # rest) ?st = run_loop (i # rest) (run_frames before ?st)"
      and "\<not> windowShouldClose (run_frames before ?st)" by simp_all
    with step [OF esc] have "run_loop (before @ i # rest) ?st =
        Some (loop_iteration i (run_frames before ?st))" by simp
    then show ?thesis by (simp add: main_started [OF init] run_frames_append)
  qed
  have runs: "snd (main env frames) = Running"
    if init: "initGLFWandGLAD env = (err, Inr g)"
      and "list_all (\<lambda>j. \<not> key_pressed j GLFW_KEY_ESCAPE \<and> \<not> close_requested j) frames"
    using quiet [OF _ that(2), of "snd (main_setup env err g)"]
    by (simp add: main_started [OF init] main_setup_fields)
  have deleted: "buffer_store (gls (cleanup st)) (VBO st) = None"
    "buffer_store (gls (cleanup st)) (EBO st) = None"
    by (simp_all add: buffer_store_cleanup)
  have terminate: "glfw_terminated (glfwTerminate st)" "gls (glfwTerminate st) = gls st"
    by (simp_all add: glfwTerminate_def)
  have running: "\<not> glfw_terminated (run_frames frames (snd (main_setup env err g)))"
    "\<not> glfw_terminated (cleanup (run_frames frames (snd (main_setup env err g))))"
    by (simp_all add: cleanup_def Let_def glfw_terminated_run_frames main_setup_fields)
  show ?thesis
    using step [of st] quiet [of st] returns runs deleted terminate running
    by (simp add: windowShouldClose_loop_iteration calls_cleanup)
qed

theorem escape_ends_the_loop_witness:
  "key_pressed (sample_frame 2 [GLFW_KEY_ESCAPE]) GLFW_KEY_ESCAPE \<and>
   \<not> windowShouldClose sample_start \<and>
   run_loop [sample_frame 2 [GLFW_KEY_ESCAPE], sample_frame 3 []] sample_start =
     Some (loop_iteration (sample_frame 2 [GLFW_KEY_ESCAPE]) sample_start) \<and>
   snd (main sample_environment
     [sample_frame 1 [GLFW_KEY_W, GLFW_KEY_L], sample_frame 2 [GLFW_KEY_ESCAPE], sample_frame 3 []]) =
     Returned 0 (glfwTerminate (cleanup (run_frames
       [sample_frame 1 [GLFW_KEY_W, GLFW_KEY_L], sample_frame 2 [GLFW_KEY_ESCAPE]] sample_start))) \<and>
   run_loop [sample_frame 1 [GLFW_KEY_W, GLFW_KEY_L]] sample_start = None \<and>
   snd (main sample_environment [sample_frame 1 [GLFW_KEY_W, GLFW_KEY_L], sample_frame 2 []]) =
     Running"
proof -
  let ?g = "issue (Viewport 0 0 800 600) gl_initial"
  let ?f1 = "sample_frame 1 [GLFW_KEY_W, GLFW_KEY_L]"
  let ?f2 = "sample_frame 2 [GLFW_KEY_ESCAPE]"
  have init: "initGLFWandGLAD sample_environment = ([], Inr ?g)"
    by (simp add: initGLFWandGLAD_def sample_environment_def)
  have start: "\<not> windowShouldClose sample_start"
    by (simp add: sample_start_def main_setup_fields)
  have esc: "key_pressed ?f2 GLFW_KEY_ESCAPE"
    by (simp add: sample_frame_def)
  have quiet1: "list_all (\<lambda>j. \<not> key_pressed j GLFW_KEY_ESCAPE \<and> \<not> close_requested j) [?f1]"
    by (simp add: sample_frame_def key_defs)
  have quiet2: "list_all (\<lambda>j. \<not> key_pressed j GLFW_KEY_ESCAPE \<and> \<not> close_requested j)
      [?f1, sample_frame 2 []]"
    by (simp add: sample_frame_def key_defs)
  have a: "run_loop [?f2, sample_frame 3 []] sample_start = Some (loop_iteration ?f2 sample_start)"
    and b: "snd (main sample_environment ([?f1] @ ?f2 # [sample_frame 3 []])) =
      Returned 0 (glfwTerminate (cleanup (run_frames ([?f1] @ [?f2]) sample_start)))"
    and c: "run_loop [?f1] sample_start = None"
    using escape_ends_the_loop [where i = ?f2 and st = sample_start
        and rest = "[sample_frame 3 []]" and env = sample_environment and err = "[]"
        and g = ?g and before = "[?f1]" and frames = "[?f1]"] init start esc quiet1
    unfolding sample_start_def by blast+
  have d: "snd (main sample_environment [?f1, sample_frame 2 []]) = Running"
    using escape_ends_the_loop [where i = ?f2 and st = sample_start
        and rest = "[]" and env = sample_environment and err = "[]"
        and g = ?g and before = "[]" and frames = "[?f1, sample_frame 2 []]"] init quiet2
    by blast
  from b have b': "snd (main sample_environment [?f1, ?f2, sample_frame 3 []]) =
      Returned 0 (glfwTerminate (cleanup (run_frames [?f1, ?f2] sample_start)))"
    by (simp only: append.simps)
  show ?thesis using esc start a b' c d by blast
qed

text \<open>
  C10. In every pass the model matrix handed to \<open>glUniformMatrix4fv\<close> is
  \<open>glm::rotate\<close> of the identity about the axis (0, 1, 0) by the clock reading times
  \<open>radians(50)\<close>. That matrix is the rotation about the Y axis by 50 degrees times the
  clock reading: it keeps \<open>y\<close> and turns \<open>x\<close> and \<open>z\<close>. The angle grows by 50 degrees for
  each second of the clock, and the matrix is not the identity at clock reading 1.8.
\<close>

theorem model_matrix_rotates:
  "glm_rotate mat4_identity (t * radians 50) (Vec3 0 1 0) = rotation_about_y (radians (50 * t)) \<and>
   mat4_mul_vec4 (rotation_about_y a) (Vec4 x y z w) =
     Vec4 (x * cos a + z * sin a) y (z * cos a - x * sin a) w \<and>
   UniformMatrix4fv (modelLoc st) (rotation_about_y (radians (50 * time_at_render i)))
     \<in> set (frame_calls i st) \<and>
   (link_status env \<longrightarrow>
      uniforms (gls (loop_iteration i (run_frames frames (snd (main_setup env err g))))) ''model'' =
        Some (UMat4 (rotation_about_y (radians (50 * time_at_render i))))) \<and>
   radians (50 * (t + 1)) - radians (50 * t) = radians 50 \<and>
   rotation_about_y (radians (50 * (9 / 5))) \<noteq> mat4_identity"
proof -
  have angle: "s * radians 50 = radians (50 * s)" for s
    by (simp add: radians_def)
  have "uniforms (gls (loop_iteration i (run_frames frames (snd (main_setup env err g))))) ''model'' =
        Some (UMat4 (rotation_about_y (radians (50 * time_at_render i))))"
    if "link_status env"
    using that by (simp add: uniforms_loop_iteration main_setup_fields angle)
  moreover have "rotation_about_y (radians (50 * (9 / 5))) \<noteq> mat4_identity"
    by (simp add: rotation_about_y_def mat4_identity_def radians_def)
  moreover have "radians (50 * (t + 1)) - radians (50 * t) = radians 50"
    by (simp add: radians_def algebra_simps)
  moreover have "mat4_mul_vec4 (rotation_about_y a) (Vec4 x y z w) =
     Vec4 (x * cos a + z * sin a) y (z * cos a - x * sin a) w"
    by (simp add: rotation_about_y_def algebra_simps)
  ultimately show ?thesis
    by (simp add: glm_rotate_about_y frame_calls_eq angle)
qed

theorem model_matrix_rotates_witness:
  "link_status sample_environment \<and>
   uniforms (gls (loop_iteration (sample_frame (9 / 5) [])
      (run_frames [sample_frame 1 [GLFW_KEY_W]] sample_start))) ''model'' =
     Some (UMat4 (rotation_about_y (radians 90)))"
  using model_matrix_rotates [of 0 0 0 0 0 0 sample_start "sample_frame (9 / 5) []"
      sample_environment "[sample_frame 1 [GLFW_KEY_W]]" "[]"
      "issue (Viewport 0 0 800 600) gl_initial"]
  by (simp add: sample_frame_def sample_environment_def sample_start_def)

end
